theory Spec2Isabelle
  imports Main "HOL-Library.Char_ord" "HOL-Library.List_Lexorder" "HOL-Library.AList"
begin


section \<open>Strings and JSON values\<close>

text \<open>
  The profile manager (\<^verbatim>\<open>scripts/profile-manager.py\<close>) works on Python strings and on
  JSON documents read with \<^verbatim>\<open>json.load\<close>. Strings are modelled as \<^typ>\<open>string\<close> with the
  ASCII reading of \<^verbatim>\<open>str.lower\<close>, \<^verbatim>\<open>str.strip\<close> and of the regular-expression classes;
  \<^verbatim>\<open>sorted\<close> on strings is the lexicographic order on characters.
\<close>

definition upper_letters :: string where
  "upper_letters = ''ABCDEFGHIJKLMNOPQRSTUVWXYZ''"

definition lower_letters :: string where
  "lower_letters = ''abcdefghijklmnopqrstuvwxyz''"

definition digit_chars :: string where
  "digit_chars = ''0123456789''"

definition lower_char :: "char \<Rightarrow> char" where
  "lower_char c = (case map_of (zip upper_letters lower_letters) c of Some d \<Rightarrow> d | None \<Rightarrow> c)"

text \<open>\<^verbatim>\<open>str.lower()\<close>.\<close>

definition lower :: "string \<Rightarrow> string" where
  "lower s = map lower_char s"

text \<open>Python's whitespace (\<^verbatim>\<open>str.isspace\<close>, the class \<^verbatim>\<open>\s\<close>) below code point 128.\<close>

definition is_space :: "char \<Rightarrow> bool" where
  "is_space c = (c \<in> set [CHR 0x09, CHR 0x0A, CHR 0x0B, CHR 0x0C, CHR 0x0D,
                            CHR 0x1C, CHR 0x1D, CHR 0x1E, CHR 0x1F, CHR 0x20])"

text \<open>\<^verbatim>\<open>str.strip()\<close>.\<close>

definition strip :: "string \<Rightarrow> string" where
  "strip s = rev (dropWhile is_space (rev (dropWhile is_space s)))"

text \<open>\<^verbatim>\<open>needle in haystack\<close> on strings.\<close>

fun starts_with :: "string \<Rightarrow> string \<Rightarrow> bool" where
  "starts_with [] s = True"
| "starts_with (p # ps) [] = False"
| "starts_with (p # ps) (c # cs) = (p = c \<and> starts_with ps cs)"

fun contains :: "string \<Rightarrow> string \<Rightarrow> bool" where
  "contains needle [] = (needle = [])"
| "contains needle (c # cs) = (starts_with needle (c # cs) \<or> contains needle cs)"

text \<open>
  A JSON value. Numbers are the integers (floating-point numbers are not modelled); an
  object is an association list in insertion order, read with \<^const>\<open>map_of\<close> and written
  with \<^const>\<open>AList.update\<close>, which replaces the value of a key that is present in place and
  appends a new key, as a Python \<^verbatim>\<open>dict\<close> does.
\<close>

datatype json =
    JNull
  | JBool bool
  | JNum int
  | JStr string
  | JList "json list"
  | JObj "(string \<times> json) list"

type_synonym dict = "(string \<times> json) list"

definition is_dict :: "json \<Rightarrow> bool" where
  "is_dict v = (case v of JObj _ \<Rightarrow> True | _ \<Rightarrow> False)"

text \<open>Python truthiness, \<^verbatim>\<open>bool(v)\<close>.\<close>

definition truthy :: "json \<Rightarrow> bool" where
  "truthy v = (case v of
      JNull \<Rightarrow> False
    | JBool b \<Rightarrow> b
    | JNum n \<Rightarrow> n \<noteq> 0
    | JStr s \<Rightarrow> s \<noteq> []
    | JList xs \<Rightarrow> xs \<noteq> []
    | JObj kvs \<Rightarrow> kvs \<noteq> [])"

text \<open>\<^verbatim>\<open>d.get(k, default)\<close>.\<close>

definition get_or :: "dict \<Rightarrow> string \<Rightarrow> json \<Rightarrow> json" where
  "get_or d k dflt = (case map_of d k of Some v \<Rightarrow> v | None \<Rightarrow> dflt)"

fun string_of_nat :: "nat \<Rightarrow> string" where
  "string_of_nat n =
     (if n < 10 then [digit_chars ! n] else string_of_nat (n div 10) @ [digit_chars ! (n mod 10)])"

declare string_of_nat.simps [simp del]

definition string_of_int :: "int \<Rightarrow> string" where
  "string_of_int i = (if i < 0 then CHR ''-'' # string_of_nat (nat (- i)) else string_of_nat (nat i))"

text \<open>
  The exceptions that the modelled functions can raise: \<^verbatim>\<open>TypeError\<close> from an operation on
  a value of the wrong type, and the two that \<^verbatim>\<open>subprocess.run\<close> raises, \<^verbatim>\<open>OSError\<close> when
  the program cannot be started and \<^verbatim>\<open>UnicodeDecodeError\<close> when its output is not text.
\<close>

datatype py_error = TypeError | OSError | UnicodeDecodeError

text \<open>
  What the program reads from outside itself: the name of the host's operating system
  (\<^verbatim>\<open>platform.system()\<close>), the clock (\<^verbatim>\<open>now_iso()\<close>), the JSON parser
  (\<^verbatim>\<open>json.loads\<close>, \<open>None\<close> for a \<^verbatim>\<open>JSONDecodeError\<close>), Python's \<^verbatim>\<open>repr\<close> of a list or
  dict, the JSON printer (\<^verbatim>\<open>json.dumps\<close>), and the subprocess runner (\<^verbatim>\<open>run_cmd\<close>: the
  exit code, stdout and stderr of the subprocess, or the exception of \<^verbatim>\<open>subprocess.run\<close>).
\<close>

record env =
  platform_system :: string
  now_iso :: string
  json_loads :: "string \<Rightarrow> json option"
  py_repr :: "json \<Rightarrow> string"
  json_dumps :: "json \<Rightarrow> string"
  run_cmd :: "string list \<Rightarrow> py_error + int \<times> string \<times> string"

text \<open>\<^verbatim>\<open>str(v)\<close> of a JSON value.\<close>

definition py_str :: "env \<Rightarrow> json \<Rightarrow> string" where
  "py_str E v = (case v of
      JNull \<Rightarrow> ''None''
    | JBool b \<Rightarrow> (if b then ''True'' else ''False'')
    | JNum n \<Rightarrow> string_of_int n
    | JStr s \<Rightarrow> s
    | _ \<Rightarrow> py_repr E v)"

section \<open>Operating-system names\<close>

definition ALL_OSES :: "string list" where
  "ALL_OSES = [''macos'', ''linux'', ''windows'']"

text \<open>
  \<^verbatim>\<open>normalize_os(raw)\<close>; \<open>raw\<close> is \<open>None\<close> for Python's \<^verbatim>\<open>None\<close>.
\<close>

definition normalize_os :: "env \<Rightarrow> string option \<Rightarrow> string" where
  "normalize_os E raw =
     (let value = lower (strip (case raw of None \<Rightarrow> [] | Some r \<Rightarrow> r)) in
      if value \<in> set [''darwin'', ''mac'', ''macos'', ''osx''] then ''macos''
      else if value \<in> set [''linux''] then ''linux''
      else if value \<in> set [''windows'', ''win32'', ''cygwin'', ''msys''] then ''windows''
      else
        (let system_name = lower (platform_system E) in
         if system_name = ''darwin'' then ''macos''
         else if system_name = ''windows'' then ''windows''
         else ''linux''))"

section \<open>Import planning\<close>

text \<open>The result of \<^verbatim>\<open>plan_import_actions\<close>: a dict with these fixed keys.\<close>

record plan_summary =
  total_items :: nat
  n_prompt_required :: nat
  n_prompt_optional :: nat
  n_manual_required :: nat
  n_manual_optional :: nat
  n_already_installed :: nat
  n_unsupported :: nat

record import_plan =
  plan_current_os :: string
  summary :: plan_summary
  prompt_required :: "json list"
  prompt_optional :: "json list"
  manual_required :: "json list"
  manual_optional :: "json list"
  already_installed :: "json list"
  unsupported :: "json list"
  ordered_candidates :: "json list"

text \<open>The six lists the loop of \<^verbatim>\<open>plan_import_actions\<close> appends to.\<close>

record plan_acc =
  acc_prompt_required :: "json list"
  acc_prompt_optional :: "json list"
  acc_manual_required :: "json list"
  acc_manual_optional :: "json list"
  acc_already_installed :: "json list"
  acc_unsupported :: "json list"

definition empty_acc :: plan_acc where
  "empty_acc = \<lparr>acc_prompt_required = [], acc_prompt_optional = [], acc_manual_required = [],
     acc_manual_optional = [], acc_already_installed = [], acc_unsupported = []\<rparr>"

text \<open>The local function \<^verbatim>\<open>installed_names(category)\<close>; the set is kept as a list.\<close>

definition installed_names :: "env \<Rightarrow> dict \<Rightarrow> string \<Rightarrow> string list" where
  "installed_names E installed_index category =
     (case get_or installed_index category (JList []) of
        JList raw \<Rightarrow> map (\<lambda>name. lower (py_str E name)) raw
      | _ \<Rightarrow> [])"

definition installed_by_category :: "env \<Rightarrow> dict \<Rightarrow> (string \<times> string list) list" where
  "installed_by_category E installed_index =
     map (\<lambda>category. (category, installed_names E installed_index category))
       [''mcp'', ''cli-tool'', ''application'', ''plugin'', ''skill'', ''workflow-pattern'',
        ''model-preference'']"

text \<open>The values the loop body reads off one item.\<close>

definition item_category :: "env \<Rightarrow> dict \<Rightarrow> string" where
  "item_category E item = lower (strip (py_str E (get_or item ''category'' (JStr []))))"

definition item_name :: "env \<Rightarrow> dict \<Rightarrow> string" where
  "item_name E item = strip (py_str E (get_or item ''name'' (JStr [])))"

definition item_is_required :: "env \<Rightarrow> dict \<Rightarrow> bool" where
  "item_is_required E item =
     (lower (strip (py_str E (get_or item ''priority'' (JStr ''optional'')))) = ''required'')"

definition item_os_support :: "dict \<Rightarrow> json list" where
  "item_os_support item =
     (case get_or item ''os_support'' (JList (map JStr ALL_OSES)) of
        JList os_support \<Rightarrow> os_support
      | _ \<Rightarrow> map JStr ALL_OSES)"

definition os_support_norm :: "env \<Rightarrow> dict \<Rightarrow> string list" where
  "os_support_norm E item =
     map (\<lambda>value. normalize_os E (Some (py_str E value))) (item_os_support item)"

definition item_install :: "dict \<Rightarrow> dict" where
  "item_install item = (case map_of item ''install'' of Some (JObj install) \<Rightarrow> install | _ \<Rightarrow> [])"

definition item_manual_only :: "env \<Rightarrow> dict \<Rightarrow> bool" where
  "item_manual_only E item =
     (let install_type = lower (py_str E (get_or (item_install item) ''type'' (JStr ''manual'')))
      in truthy (get_or item ''manual_only'' JNull)
         \<or> install_type = ''manual''
         \<or> item_category E item \<in> set [''application'', ''workflow-pattern'', ''model-preference''])"

text \<open>\<^verbatim>\<open>item["action"] = action; item["reason"] = reason\<close> on the copy of the item.\<close>

definition annotate :: "string \<Rightarrow> string \<Rightarrow> dict \<Rightarrow> json" where
  "annotate action reason item =
     JObj (AList.update ''reason'' (JStr reason) (AList.update ''action'' (JStr action) item))"

text \<open>One iteration of the loop over \<^verbatim>\<open>items\<close>.\<close>

definition plan_step ::
  "env \<Rightarrow> string \<Rightarrow> (string \<times> string list) list \<Rightarrow> plan_acc \<Rightarrow> json \<Rightarrow> plan_acc" where
  "plan_step E current_os by_category acc raw_item =
     (case raw_item of
        JObj item \<Rightarrow>
          if current_os \<notin> set (os_support_norm E item) then
            acc\<lparr>acc_unsupported := acc_unsupported acc
              @ [annotate ''unsupported_os'' (''Not supported on '' @ current_os) item]\<rparr>
          else if lower (item_name E item)
                  \<in> set (case map_of by_category (item_category E item) of
                            Some names \<Rightarrow> names | None \<Rightarrow> []) then
            acc\<lparr>acc_already_installed := acc_already_installed acc
              @ [annotate ''skip_already_installed'' ''Already installed'' item]\<rparr>
          else if item_manual_only E item then
            (if item_is_required E item then
               acc\<lparr>acc_manual_required := acc_manual_required acc
                 @ [annotate ''manual_setup'' ''Manual setup required'' item]\<rparr>
             else
               acc\<lparr>acc_manual_optional := acc_manual_optional acc
                 @ [annotate ''manual_setup'' ''Manual setup required'' item]\<rparr>)
          else
            (if item_is_required E item then
               acc\<lparr>acc_prompt_required := acc_prompt_required acc
                 @ [annotate ''prompt_install'' ''Ready to install'' item]\<rparr>
             else
               acc\<lparr>acc_prompt_optional := acc_prompt_optional acc
                 @ [annotate ''prompt_install'' ''Ready to install'' item]\<rparr>)
      | _ \<Rightarrow> acc)"

text \<open>\<^verbatim>\<open>plan_import_actions(profile, local, current_os)\<close>.\<close>

definition plan_import_actions :: "env \<Rightarrow> dict \<Rightarrow> dict \<Rightarrow> string \<Rightarrow> import_plan" where
  "plan_import_actions E profile local current_os =
     (let items = (case get_or profile ''items'' (JList []) of JList xs \<Rightarrow> xs | _ \<Rightarrow> []);
          installed_index =
            (case get_or local ''installed_index'' (JObj []) of JObj d \<Rightarrow> d | _ \<Rightarrow> []);
          acc = foldl (plan_step E current_os (installed_by_category E installed_index))
                  empty_acc items
      in \<lparr>plan_current_os = current_os,
          summary = \<lparr>total_items = length items,
            n_prompt_required = length (acc_prompt_required acc),
            n_prompt_optional = length (acc_prompt_optional acc),
            n_manual_required = length (acc_manual_required acc),
            n_manual_optional = length (acc_manual_optional acc),
            n_already_installed = length (acc_already_installed acc),
            n_unsupported = length (acc_unsupported acc)\<rparr>,
          prompt_required = acc_prompt_required acc,
          prompt_optional = acc_prompt_optional acc,
          manual_required = acc_manual_required acc,
          manual_optional = acc_manual_optional acc,
          already_installed = acc_already_installed acc,
          unsupported = acc_unsupported acc,
          ordered_candidates = acc_prompt_required acc @ acc_prompt_optional acc
            @ acc_manual_required acc @ acc_manual_optional acc\<rparr>)"

text \<open>
  The classification as the design document words it: six dispositions, the checks applied
  in the order unsupported OS, already installed, manual setup, and otherwise a prompt.
\<close>

datatype bucket =
  Unsupported | Already_installed | Manual_required | Manual_optional
  | Prompt_required | Prompt_optional

definition spec_bucket :: "env \<Rightarrow> string \<Rightarrow> dict \<Rightarrow> dict \<Rightarrow> bucket" where
  "spec_bucket E current_os installed_index item =
     (if current_os \<notin> set (os_support_norm E item) then Unsupported
      else if item_category E item
                \<in> set [''mcp'', ''cli-tool'', ''application'', ''plugin'', ''skill'',
                       ''workflow-pattern'', ''model-preference'']
              \<and> lower (item_name E item)
                \<in> set (installed_names E installed_index (item_category E item))
           then Already_installed
      else if item_manual_only E item then
        (if item_is_required E item then Manual_required else Manual_optional)
      else (if item_is_required E item then Prompt_required else Prompt_optional))"

definition bucket_of_plan :: "bucket \<Rightarrow> import_plan \<Rightarrow> json list" where
  "bucket_of_plan b p = (case b of
      Unsupported \<Rightarrow> unsupported p
    | Already_installed \<Rightarrow> already_installed p
    | Manual_required \<Rightarrow> manual_required p
    | Manual_optional \<Rightarrow> manual_optional p
    | Prompt_required \<Rightarrow> prompt_required p
    | Prompt_optional \<Rightarrow> prompt_optional p)"

definition annotate_for :: "string \<Rightarrow> bucket \<Rightarrow> dict \<Rightarrow> json" where
  "annotate_for current_os b item = (case b of
      Unsupported \<Rightarrow> annotate ''unsupported_os'' (''Not supported on '' @ current_os) item
    | Already_installed \<Rightarrow> annotate ''skip_already_installed'' ''Already installed'' item
    | Manual_required \<Rightarrow> annotate ''manual_setup'' ''Manual setup required'' item
    | Manual_optional \<Rightarrow> annotate ''manual_setup'' ''Manual setup required'' item
    | Prompt_required \<Rightarrow> annotate ''prompt_install'' ''Ready to install'' item
    | Prompt_optional \<Rightarrow> annotate ''prompt_install'' ''Ready to install'' item)"

text \<open>The dicts among the entries of \<^verbatim>\<open>items\<close>; the loop skips every other entry.\<close>

definition profile_items :: "dict \<Rightarrow> json list" where
  "profile_items profile = (case get_or profile ''items'' (JList []) of JList xs \<Rightarrow> xs | _ \<Rightarrow> [])"

definition dict_items :: "dict \<Rightarrow> dict list" where
  "dict_items profile =
     concat (map (\<lambda>raw. case raw of JObj item \<Rightarrow> [item] | _ \<Rightarrow> []) (profile_items profile))"

definition local_index :: "dict \<Rightarrow> dict" where
  "local_index local = (case get_or local ''installed_index'' (JObj []) of JObj d \<Rightarrow> d | _ \<Rightarrow> [])"

text \<open>An operating-system name that \<^verbatim>\<open>normalize_os\<close> recognises without looking at the host.\<close>

definition recognized_os :: "string \<Rightarrow> bool" where
  "recognized_os raw =
     (lower (strip raw) \<in> set [''darwin'', ''mac'', ''macos'', ''osx'', ''linux'',
                                ''windows'', ''win32'', ''cygwin'', ''msys''])"

text \<open>Auxiliary functions for the proofs about the planning loop.\<close>

definition add_to_bucket :: "string \<Rightarrow> bucket \<Rightarrow> dict \<Rightarrow> plan_acc \<Rightarrow> plan_acc" where
  "add_to_bucket os b item acc = (case b of
      Unsupported \<Rightarrow> acc\<lparr>acc_unsupported := acc_unsupported acc @ [annotate_for os b item]\<rparr>
    | Already_installed \<Rightarrow> acc\<lparr>acc_already_installed := acc_already_installed acc @ [annotate_for os b item]\<rparr>
    | Manual_required \<Rightarrow> acc\<lparr>acc_manual_required := acc_manual_required acc @ [annotate_for os b item]\<rparr>
    | Manual_optional \<Rightarrow> acc\<lparr>acc_manual_optional := acc_manual_optional acc @ [annotate_for os b item]\<rparr>
    | Prompt_required \<Rightarrow> acc\<lparr>acc_prompt_required := acc_prompt_required acc @ [annotate_for os b item]\<rparr>
    | Prompt_optional \<Rightarrow> acc\<lparr>acc_prompt_optional := acc_prompt_optional acc @ [annotate_for os b item]\<rparr>)"

definition sel :: "env \<Rightarrow> string \<Rightarrow> dict \<Rightarrow> bucket \<Rightarrow> json list \<Rightarrow> json list" where
  "sel E os idx b items = map (annotate_for os b)
     (filter (\<lambda>item. spec_bucket E os idx item = b)
        (concat (map (\<lambda>raw. case raw of JObj item \<Rightarrow> [item] | _ \<Rightarrow> []) items)))"

definition known_os_support :: "env \<Rightarrow> dict \<Rightarrow> bool" where
  "known_os_support E item = list_all (\<lambda>v. recognized_os (py_str E v)) (item_os_support item)"

text \<open>
  The position of a candidate in the surfacing order, read off the candidate itself:
  automatable before manual, and within each, required before optional.
\<close>

definition candidate_rank :: "env \<Rightarrow> json \<Rightarrow> nat" where
  "candidate_rank E candidate = (case candidate of
      JObj item \<Rightarrow>
        (if get_or item ''action'' JNull = JStr ''prompt_install'' then 0 else 2)
        + (if item_is_required E item then 0 else 1)
    | _ \<Rightarrow> 4)"

definition bucket_rank :: "bucket \<Rightarrow> nat" where
  "bucket_rank b = (case b of Prompt_required \<Rightarrow> 0 | Prompt_optional \<Rightarrow> 1
        | Manual_required \<Rightarrow> 2 | Manual_optional \<Rightarrow> 3 | _ \<Rightarrow> 4)"

section \<open>Saved state and application selection\<close>

text \<open>
  The state document as \<^verbatim>\<open>load_state\<close> returns it: \<^verbatim>\<open>saved_applications\<close> and
  \<^verbatim>\<open>published_profiles\<close> are dicts and \<^verbatim>\<open>last_exported_at\<close> is a string.
\<close>

record state =
  schema_version :: json
  saved_applications :: dict
  published_profiles :: dict
  last_exported_at :: string

text \<open>The dict comprehension \<^verbatim>\<open>{name.lower(): name for name in names}\<close>.\<close>

definition lookup_by_lower :: "string list \<Rightarrow> (string \<times> string) list" where
  "lookup_by_lower names = foldl (\<lambda>d name. AList.update (lower name) name d) [] names"

record selection =
  saved_installed :: "string list"
  saved_missing :: "string list"
  new_candidates :: "string list"

text \<open>\<^verbatim>\<open>compute_application_selection(detected_apps, state)\<close>.\<close>

definition compute_application_selection :: "string list \<Rightarrow> state \<Rightarrow> selection" where
  "compute_application_selection detected_apps st =
     (let saved_map = saved_applications st;
          saved_names = sort (map fst saved_map);
          detected_set = lookup_by_lower detected_apps;
          saved_set = lookup_by_lower saved_names
      in \<lparr>saved_installed =
            sort (map snd (filter (\<lambda>(key, name). key \<in> set (map fst saved_set)) detected_set)),
          saved_missing =
            sort (map snd (filter (\<lambda>(key, name). key \<notin> set (map fst detected_set)) saved_set)),
          new_candidates =
            sort (map snd (filter (\<lambda>(key, name). key \<notin> set (map fst saved_set)) detected_set))\<rparr>)"

text \<open>The invariant of the dict built by \<^const>\<open>lookup_by_lower\<close>.\<close>

definition lookup_inv :: "string list \<Rightarrow> (string \<times> string) list \<Rightarrow> bool" where
  "lookup_inv names d \<longleftrightarrow> distinct (map fst d) \<and> dom (map_of d) = lower ` set names
     \<and> (\<forall>k v. map_of d k = Some v \<longrightarrow> k = lower v \<and> v \<in> set names)"

text \<open>The literal entry \<^verbatim>\<open>update_saved_app_state\<close> creates, with the given \<^verbatim>\<open>last_seen_state\<close>.\<close>

definition fresh_entry :: "string \<Rightarrow> string \<Rightarrow> dict" where
  "fresh_entry now seen =
     [(''first_saved_at'', JStr now), (''last_selected_at'', JStr []),
      (''last_seen_state'', JStr seen), (''priority'', JStr ''optional'')]"

text \<open>
  \<^verbatim>\<open>entry.get("priority") in {"required", "optional"}\<close>. Membership in a set hashes the
  value, and hashing a list or a dict raises \<^verbatim>\<open>TypeError\<close>; \<^verbatim>\<open>None\<close>, booleans, numbers
  and strings are hashable, and only the two strings are members.
\<close>

definition valid_priority :: "dict \<Rightarrow> py_error + bool" where
  "valid_priority entry =
     (case get_or entry ''priority'' JNull of
        JList xs \<Rightarrow> Inl TypeError
      | JObj kvs \<Rightarrow> Inl TypeError
      | v \<Rightarrow> Inr (v = JStr ''required'' \<or> v = JStr ''optional''))"

text \<open>
  The statements \<^verbatim>\<open>if entry.get("priority") not in {"required", "optional"}:
  entry["priority"] = "optional"\<close>, which both loops end with.
\<close>

definition default_priority :: "dict \<Rightarrow> py_error + dict" where
  "default_priority entry =
     (case valid_priority entry of
        Inl err \<Rightarrow> Inl err
      | Inr valid \<Rightarrow>
          Inr (if \<not> valid then AList.update ''priority'' (JStr ''optional'') entry else entry))"

text \<open>
  The assignments of the first loop's body to \<^verbatim>\<open>entry\<close>, for the detected application with
  lower-cased name \<open>lower_name\<close>.
\<close>

definition refresh_entry ::
  "string \<Rightarrow> string list \<Rightarrow> string list \<Rightarrow> string \<Rightarrow> dict \<Rightarrow> py_error + dict" where
  "refresh_entry now selected_keys required_apps lower_name entry =
     (let e1 = AList.update ''last_seen_state'' (JStr ''installed'') entry;
          e2 = (if lower_name \<in> set selected_keys then
                  (let e = AList.update ''last_selected_at'' (JStr now) e1 in
                   if \<not> truthy (get_or e ''first_saved_at'' JNull)
                   then AList.update ''first_saved_at'' (JStr now) e else e)
                else e1)
      in if lower_name \<in> set required_apps
         then Inr (AList.update ''priority'' (JStr ''required'') e2)
         else default_priority e2)"

text \<open>
  One iteration of the first loop. \<^verbatim>\<open>entry\<close> is the first truthy one of
  \<^verbatim>\<open>saved.get(original)\<close>, \<^verbatim>\<open>saved.get(lower_name)\<close> and a fresh entry; assigning to a
  key of an entry that is not a dict raises \<^verbatim>\<open>TypeError\<close>. When the entry is the object
  stored under \<open>lower_name\<close>, the assignments change that object, so the value under
  \<open>lower_name\<close> changes with it, and \<^verbatim>\<open>saved[original] = entry\<close> stores the same object
  under \<open>original\<close>.
\<close>

definition update_detected ::
  "string \<Rightarrow> string list \<Rightarrow> string list \<Rightarrow> dict \<Rightarrow> string \<times> string \<Rightarrow> py_error + dict" where
  "update_detected now selected_keys required_apps saved p =
     (case p of (lower_name, original) \<Rightarrow>
        if truthy (get_or saved original JNull) then
          (case get_or saved original JNull of
             JObj entry \<Rightarrow>
               (case refresh_entry now selected_keys required_apps lower_name entry of
                  Inl err \<Rightarrow> Inl err
                | Inr entry' \<Rightarrow> Inr (AList.update original (JObj entry') saved))
           | _ \<Rightarrow> Inl TypeError)
        else if truthy (get_or saved lower_name JNull) then
          (case get_or saved lower_name JNull of
             JObj entry \<Rightarrow>
               (case refresh_entry now selected_keys required_apps lower_name entry of
                  Inl err \<Rightarrow> Inl err
                | Inr entry' \<Rightarrow>
                    Inr (AList.update original (JObj entry')
                           (AList.update lower_name (JObj entry') saved)))
           | _ \<Rightarrow> Inl TypeError)
        else
          (case refresh_entry now selected_keys required_apps lower_name
                  (fresh_entry now ''installed'') of
             Inl err \<Rightarrow> Inl err
           | Inr entry' \<Rightarrow> Inr (AList.update original (JObj entry') saved)))"

text \<open>The first loop, over \<^verbatim>\<open>detected_lookup.items()\<close>; an exception ends it.\<close>

fun update_all_detected ::
  "string \<Rightarrow> string list \<Rightarrow> string list \<Rightarrow> dict \<Rightarrow> (string \<times> string) list \<Rightarrow> py_error + dict" where
  "update_all_detected now selected_keys required_apps saved [] = Inr saved"
| "update_all_detected now selected_keys required_apps saved (p # ps) =
     (case update_detected now selected_keys required_apps saved p of
        Inl e \<Rightarrow> Inl e
      | Inr saved' \<Rightarrow> update_all_detected now selected_keys required_apps saved' ps)"

text \<open>
  One iteration of the second loop, over \<^verbatim>\<open>list(saved.items())\<close>: an entry that is not a
  dict is replaced by a fresh one, and the entry of an application that is not detected is
  marked as missing.
\<close>

definition mark_missing ::
  "string \<Rightarrow> string list \<Rightarrow> string \<times> json \<Rightarrow> py_error + string \<times> json" where
  "mark_missing now current_detected p =
     (case p of (app_name, entry) \<Rightarrow>
        (case entry of
           JObj e \<Rightarrow>
             if lower app_name \<notin> set current_detected then
               (case default_priority (AList.update ''last_seen_state'' (JStr ''missing'') e) of
                  Inl err \<Rightarrow> Inl err
                | Inr e' \<Rightarrow> Inr (app_name, JObj e'))
             else Inr (app_name, entry)
         | _ \<Rightarrow> Inr (app_name, JObj (fresh_entry now ''missing''))))"

text \<open>The second loop; an exception ends it.\<close>

fun mark_all_missing ::
  "string \<Rightarrow> string list \<Rightarrow> (string \<times> json) list \<Rightarrow> py_error + (string \<times> json) list" where
  "mark_all_missing now current_detected [] = Inr []"
| "mark_all_missing now current_detected (p # ps) =
     (case mark_missing now current_detected p of
        Inl e \<Rightarrow> Inl e
      | Inr p' \<Rightarrow>
          (case mark_all_missing now current_detected ps of
             Inl e \<Rightarrow> Inl e
           | Inr ps' \<Rightarrow> Inr (p' # ps')))"

text \<open>
  \<^verbatim>\<open>update_saved_app_state(state, detected_apps, selected_apps, required_apps)\<close>: the state
  it leaves, or the exception it raises.
\<close>

definition update_saved_app_state ::
  "env \<Rightarrow> state \<Rightarrow> string list \<Rightarrow> string list \<Rightarrow> string list \<Rightarrow> py_error + state" where
  "update_saved_app_state E st detected_apps selected_apps required_apps =
     (let saved = saved_applications st;
          now = now_iso E;
          detected_lookup = lookup_by_lower detected_apps;
          selected_lookup = lookup_by_lower selected_apps
      in case update_all_detected now (map fst selected_lookup) required_apps saved detected_lookup of
           Inl e \<Rightarrow> Inl e
         | Inr saved1 \<Rightarrow>
             (case mark_all_missing now (map fst detected_lookup) saved1 of
                Inl e \<Rightarrow> Inl e
              | Inr saved2 \<Rightarrow> Inr (st\<lparr>saved_applications := saved2\<rparr>)))"


section \<open>Redaction\<close>

text \<open>
  \<^verbatim>\<open>SENSITIVE_KEY_RE.search(s)\<close>: the pattern
  \<^verbatim>\<open>(token|secret|password|api[_-]?key|pat|authorization)\<close>, ignoring case, matches
  somewhere in \<open>s\<close>.
\<close>

definition sensitive_words :: "string list" where
  "sensitive_words = [''token'', ''secret'', ''password'', ''api_key'', ''api-key'', ''apikey'',
     ''pat'', ''authorization'']"

definition sensitive_key :: "string \<Rightarrow> bool" where
  "sensitive_key s = list_ex (\<lambda>w. contains w (lower s)) sensitive_words"

text \<open>
  \<^verbatim>\<open>re.sub\<close> scans the string from the left. At a position that is not inside an earlier
  match it asks the pattern for a match starting there; a pattern is modelled by a
  function that is given the character before the position and the rest of the string, and
  returns the replacement text and the number of characters matched (none of the patterns
  below matches the empty string). The characters of a match are skipped.
\<close>

type_synonym matcher = "char option \<Rightarrow> string \<Rightarrow> (string \<times> nat) option"

fun re_sub_from :: "matcher \<Rightarrow> char option \<Rightarrow> nat \<Rightarrow> string \<Rightarrow> string" where
  "re_sub_from m prev skip [] = []"
| "re_sub_from m prev (Suc k) (c # cs) = re_sub_from m (Some c) k cs"
| "re_sub_from m prev 0 (c # cs) =
     (case m prev (c # cs) of
        Some (replacement, n) \<Rightarrow> replacement @ re_sub_from m (Some c) (n - 1) cs
      | None \<Rightarrow> c # re_sub_from m (Some c) 0 cs)"

definition re_sub :: "matcher \<Rightarrow> string \<Rightarrow> string" where
  "re_sub m s = re_sub_from m None 0 s"

text \<open>The character classes \<^verbatim>\<open>[A-Za-z0-9]\<close> and \<^verbatim>\<open>\w\<close>, and the assertion \<^verbatim>\<open>\b\<close>.\<close>

definition is_alnum :: "char \<Rightarrow> bool" where
  "is_alnum c = (c \<in> set upper_letters \<or> c \<in> set lower_letters \<or> c \<in> set digit_chars)"

definition is_word :: "char \<Rightarrow> bool" where
  "is_word c = (is_alnum c \<or> c = CHR ''_'')"

definition word_before :: "char option \<Rightarrow> bool" where
  "word_before prev = (case prev of None \<Rightarrow> False | Some c \<Rightarrow> is_word c)"

definition word_at :: "string \<Rightarrow> bool" where
  "word_at s = (case s of [] \<Rightarrow> False | c # _ \<Rightarrow> is_word c)"

text \<open>\<^verbatim>\<open>\b\<close> after the first \<open>k\<close> characters of \<open>s\<close>, which follows the character \<open>prev\<close>.\<close>

definition boundary_at :: "char option \<Rightarrow> string \<Rightarrow> nat \<Rightarrow> bool" where
  "boundary_at prev s k =
     (word_before (if k = 0 then prev else Some (s ! (k - 1))) \<noteq> word_at (drop k s))"

text \<open>
  A greedy repetition followed by \<^verbatim>\<open>\b\<close>: of the lengths \<open>lo, \<dots>, hi\<close> the engine tries
  the longest first and gives characters back until the assertion holds.
\<close>

fun longest_boundary :: "char option \<Rightarrow> string \<Rightarrow> nat \<Rightarrow> nat \<Rightarrow> nat option" where
  "longest_boundary prev s lo 0 = (if lo = 0 \<and> boundary_at prev s 0 then Some 0 else None)"
| "longest_boundary prev s lo (Suc hi) =
     (if Suc hi < lo then None
      else if boundary_at prev s (Suc hi) then Some (Suc hi)
      else longest_boundary prev s lo hi)"

text \<open>
  The patterns of \<^verbatim>\<open>SENSITIVE_VALUE_PATTERNS\<close> have the shape
  \<^verbatim>\<open>\b prefix class{n,} \b\<close>, with the replacement \<^verbatim>\<open><redacted>\<close>.
\<close>

definition match_secret :: "string \<Rightarrow> (char \<Rightarrow> bool) \<Rightarrow> nat \<Rightarrow> matcher" where
  "match_secret prefix cls n prev s =
     (if boundary_at prev s 0 \<and> starts_with prefix s then
        (let run = length (takeWhile cls (drop (length prefix) s)) in
         case longest_boundary prev s (length prefix + n) (length prefix + run) of
           Some k \<Rightarrow> Some (''<redacted>'', k)
         | None \<Rightarrow> None)
      else None)"

definition is_alnum_dash :: "char \<Rightarrow> bool" where
  "is_alnum_dash c = (is_alnum c \<or> c = CHR ''-'')"

definition is_token_char :: "char \<Rightarrow> bool" where
  "is_token_char c = (is_alnum c \<or> c = CHR ''_'' \<or> c = CHR ''-'')"

text \<open>\<^verbatim>\<open>\b(sk-[A-Za-z0-9]{12,})\b\<close>\<close>

definition pattern_sk :: matcher where
  "pattern_sk = match_secret ''sk-'' is_alnum 12"

text \<open>\<^verbatim>\<open>\b(ghp_[A-Za-z0-9]{20,})\b\<close>\<close>

definition pattern_ghp :: matcher where
  "pattern_ghp = match_secret ''ghp_'' is_alnum 20"

text \<open>\<^verbatim>\<open>\b(xox[baprs]-[A-Za-z0-9-]{10,})\b\<close>\<close>

definition pattern_xox :: matcher where
  "pattern_xox prev s =
     (if list_ex (\<lambda>p. starts_with p s) [''xoxb-'', ''xoxa-'', ''xoxp-'', ''xoxr-'', ''xoxs-'']
      then match_secret (take 5 s) is_alnum_dash 10 prev s else None)"

text \<open>\<^verbatim>\<open>\b[A-Za-z0-9_\-]{30,}\b\<close>\<close>

definition pattern_long :: matcher where
  "pattern_long = match_secret [] is_token_char 30"

text \<open>
  The alternation \<^verbatim>\<open>token|secret|password|api[_-]?key|pat|authorization\<close>, ignoring case,
  at the start of \<open>s\<close>: the length of the first alternative that matches.
\<close>

definition starts_with_ci :: "string \<Rightarrow> string \<Rightarrow> bool" where
  "starts_with_ci w s = starts_with w (lower (take (length w) s))"

definition match_key :: "string \<Rightarrow> nat option" where
  "match_key s =
     (case filter (\<lambda>w. starts_with_ci w s) sensitive_words of
        [] \<Rightarrow> None
      | w # _ \<Rightarrow> Some (length w))"

text \<open>
  \<^verbatim>\<open>\s*[:=]\s*\<close> at the start of \<open>s\<close>: the number of characters it matches. Each \<^verbatim>\<open>\s*\<close>
  takes all the whitespace there is, since what follows it is not whitespace.
\<close>

definition match_separator :: "string \<Rightarrow> nat option" where
  "match_separator s =
     (let a = length (takeWhile is_space s) in
      case drop a s of
        [] \<Rightarrow> None
      | c # rest \<Rightarrow>
          if c = CHR '':'' \<or> c = CHR ''=''
          then Some (a + 1 + length (takeWhile is_space rest)) else None)"

text \<open>
  The second substitution of \<^verbatim>\<open>redact_text\<close>: the pattern
  \<^verbatim>\<open>(?i)(token|...|authorization)\s*[:=]\s*([^\s,;]+)\<close> with the replacement
  \<^verbatim>\<open>\1=<redacted>\<close>.
\<close>

definition is_value_char :: "char \<Rightarrow> bool" where
  "is_value_char c = (\<not> is_space c \<and> c \<noteq> CHR '','' \<and> c \<noteq> CHR '';'')"

definition pattern_assignment :: matcher where
  "pattern_assignment prev s =
     (case match_key s of
        None \<Rightarrow> None
      | Some k \<Rightarrow>
          (case match_separator (drop k s) of
             None \<Rightarrow> None
           | Some j \<Rightarrow>
               (let v = length (takeWhile is_value_char (drop (k + j) s)) in
                if v = 0 then None else Some (take k s @ ''=<redacted>'', k + j + v))))"

text \<open>
  The first substitution of \<^verbatim>\<open>redact_text\<close>: the pattern
  \<^verbatim>\<open>(?i)("?(?:token|...|authorization)"?\s*[:=]\s*")([^"]+)(")\<close> with the replacement
  \<^verbatim>\<open>\1<redacted>\3\<close>. \<open>q\<close> and \<open>q'\<close> are the lengths of the optional quotes.
\<close>

definition quote_len :: "string \<Rightarrow> nat" where
  "quote_len s = (case s of c # _ \<Rightarrow> if c = CHR 0x22 then 1 else 0 | [] \<Rightarrow> 0)"

definition pattern_quoted :: matcher where
  "pattern_quoted prev s =
     (let q = quote_len s in
      case match_key (drop q s) of
        None \<Rightarrow> None
      | Some k \<Rightarrow>
          (let q' = quote_len (drop (q + k) s) in
           case match_separator (drop (q + k + q') s) of
             None \<Rightarrow> None
           | Some j \<Rightarrow>
               (let h = q + k + q' + j in
                if quote_len (drop h s) = 0 then None
                else
                  (let v = length (takeWhile (\<lambda>c. c \<noteq> CHR 0x22) (drop (h + 1) s)) in
                   if v = 0 \<or> quote_len (drop (h + 1 + v) s) = 0 then None
                   else Some (take (h + 1) s @ ''<redacted>'' @ [CHR 0x22], h + 1 + v + 1)))))"

text \<open>\<^verbatim>\<open>redact_text(value)\<close>.\<close>

definition redact_text :: "string \<Rightarrow> string" where
  "redact_text value =
     re_sub pattern_long (re_sub pattern_xox (re_sub pattern_ghp (re_sub pattern_sk
       (re_sub pattern_assignment (re_sub pattern_quoted value)))))"

text \<open>\<^verbatim>\<open>redact_value(value, parent_key)\<close>.\<close>

fun redact_value :: "json \<Rightarrow> string \<Rightarrow> json" where
  "redact_value (JObj kvs) parent_key =
     JObj (map (\<lambda>(key, inner).
        if sensitive_key key then (key, JStr ''<redacted>'')
        else (key, redact_value inner key)) kvs)"
| "redact_value (JList xs) parent_key = JList (map (\<lambda>item. redact_value item parent_key) xs)"
| "redact_value (JStr s) parent_key =
     (if sensitive_key parent_key then JStr ''<redacted>'' else JStr (redact_text s))"
| "redact_value v parent_key = v"

section \<open>Catalog builder\<close>

text \<open>
  \<^verbatim>\<open>slugify(value)\<close>: every maximal run of characters outside \<^verbatim>\<open>[a-z0-9._-]\<close> of the
  lower-cased value becomes one \<^verbatim>\<open>-\<close>, and the result is stripped of leading and trailing
  \<^verbatim>\<open>-\<close>. The flag of \<open>collapse_from\<close> says that the position is inside such a run.
\<close>

definition is_slug_char :: "char \<Rightarrow> bool" where
  "is_slug_char c = (c \<in> set lower_letters \<or> c \<in> set digit_chars \<or> c \<in> set ''._-'')"

fun collapse_from :: "bool \<Rightarrow> string \<Rightarrow> string" where
  "collapse_from in_run [] = []"
| "collapse_from in_run (c # cs) =
     (if is_slug_char c then c # collapse_from False cs
      else if in_run then collapse_from True cs
      else CHR ''-'' # collapse_from True cs)"

definition strip_dashes :: "string \<Rightarrow> string" where
  "strip_dashes s =
     rev (dropWhile (\<lambda>c. c = CHR ''-'') (rev (dropWhile (\<lambda>c. c = CHR ''-'') s)))"

definition slugify :: "string \<Rightarrow> string" where
  "slugify value = strip_dashes (collapse_from False (lower value))"

text \<open>\<^verbatim>\<open>item_id(category, name, fingerprint)\<close>.\<close>

definition item_id :: "string \<Rightarrow> string \<Rightarrow> string \<Rightarrow> string" where
  "item_id category name fingerprint =
     (let base = category @ '':'' @ slugify name in
      if category = ''skill'' \<and> fingerprint \<noteq> [] then base @ '':'' @ take 8 fingerprint
      else base)"

text \<open>\<^verbatim>\<open>sep.join(xs)\<close>.\<close>

fun join :: "string \<Rightarrow> string list \<Rightarrow> string" where
  "join sep [] = []"
| "join sep [x] = x"
| "join sep (x # y # ys) = x @ sep @ join sep (y # ys)"

text \<open>\<^verbatim>\<open>infer_os_support(rec, category, source_os)\<close>.\<close>

definition infer_os_support :: "env \<Rightarrow> dict \<Rightarrow> string \<Rightarrow> string \<Rightarrow> string list" where
  "infer_os_support E rec category source_os =
     (let prereqs = (case get_or rec ''prerequisites'' (JList []) of JList xs \<Rightarrow> xs | _ \<Rightarrow> []);
          blob = join '' '' (map (\<lambda>item. lower (py_str E item)) prereqs);
          supported = (if contains ''mac'' blob then [''macos''] else [])
            @ (if contains ''linux'' blob then [''linux''] else [])
            @ (if contains ''windows'' blob then [''windows''] else [])
      in if supported \<noteq> [] then sort (remdups supported)
         else if category = ''application'' then [source_os]
         else ALL_OSES)"

text \<open>\<^verbatim>\<open>normalize_install_data(rec)\<close>.\<close>

definition normalize_install_data :: "env \<Rightarrow> dict \<Rightarrow> dict" where
  "normalize_install_data E rec =
     (let install = (case get_or rec ''install'' (JObj []) of JObj d \<Rightarrow> d | _ \<Rightarrow> []);
          install_type = py_str E (get_or install ''type'' (JStr ''manual''));
          command = strip (py_str E (get_or install ''command'' (JStr [])));
          config_snippet =
            (case get_or install ''config_snippet'' JNull of
               JStr s \<Rightarrow>
                 (let snippet = strip s in
                  if snippet \<noteq> [] then
                    (case json_loads E snippet of Some v \<Rightarrow> v | None \<Rightarrow> JStr snippet)
                  else JStr s)
             | v \<Rightarrow> v);
          out0 = [(''type'', JStr install_type), (''command'', JStr command)];
          out1 = (if truthy config_snippet
                  then AList.update ''config_snippet'' config_snippet out0 else out0);
          out2 = (if map_of install ''source'' \<noteq> None
                  then AList.update ''source''
                         (JStr (py_str E (get_or install ''source'' (JStr [])))) out1
                  else out1);
          out3 = (if map_of install ''scope'' \<noteq> None
                  then AList.update ''scope''
                         (JStr (py_str E (get_or install ''scope'' (JStr ''user'')))) out2
                  else out2)
      in if map_of install ''repo'' \<noteq> None
         then AList.update ''repo'' (JStr (py_str E (get_or install ''repo'' (JStr [])))) out3
         else out3)"

text \<open>\<^verbatim>\<open>normalize_verification(rec)\<close>.\<close>

definition normalize_verification :: "env \<Rightarrow> dict \<Rightarrow> dict" where
  "normalize_verification E rec =
     (let verification =
            (case get_or rec ''verification'' (JObj []) of JObj d \<Rightarrow> d | _ \<Rightarrow> []);
          verify_type = py_str E (get_or verification ''type'' (JStr ''manual''));
          test_command = strip (py_str E (get_or verification ''test_command'' (JStr [])));
          success_indicator =
            strip (py_str E (get_or verification ''success_indicator'' (JStr [])));
          out0 = [(''type'', JStr verify_type)];
          out1 = (if test_command \<noteq> []
                  then AList.update ''test_command'' (JStr test_command) out0 else out0)
      in if success_indicator \<noteq> []
         then AList.update ''success_indicator'' (JStr success_indicator) out1
         else out1)"

text \<open>\<^verbatim>\<open>manual_item(name, category, source_os, note)\<close>.\<close>

definition manual_item :: "string \<Rightarrow> string \<Rightarrow> string \<Rightarrow> string \<Rightarrow> dict" where
  "manual_item name category source_os note =
     [(''id'', JStr (item_id category name [])),
      (''name'', JStr name),
      (''category'', JStr category),
      (''sdlc_phase'', JStr ''implementation''),
      (''install'', JObj [(''type'', JStr ''manual''), (''command'', JStr []),
         (''instructions'', JStr (if note \<noteq> [] then note else ''Manual setup required''))]),
      (''verification'', JObj [(''type'', JStr ''manual''),
         (''test_command'', JStr ''Verify manually'')]),
      (''tags'', JList []),
      (''source'', JStr ''detected''),
      (''source_url'', JStr []),
      (''pricing'', JObj []),
      (''os_support'',
         JList (map JStr (if category = ''application'' then [source_os] else ALL_OSES))),
      (''manual_only'', JBool True),
      (''priority'', JStr ''optional'')]"

text \<open>
  \<^verbatim>\<open>build_item_from_recommendation(name, category, source_os, rec, mcp_config, skill_hash)\<close>;
  \<open>rec\<close> and \<open>mcp_config\<close> are \<open>None\<close> for Python's \<^verbatim>\<open>None\<close>.
\<close>

definition build_item_from_recommendation ::
  "env \<Rightarrow> string \<Rightarrow> string \<Rightarrow> string \<Rightarrow> dict option \<Rightarrow> dict option \<Rightarrow> string \<Rightarrow> dict" where
  "build_item_from_recommendation E name category source_os rec_opt mcp_config skill_hash =
     (case rec_opt of
        None \<Rightarrow> manual_item name category source_os []
      | Some rec \<Rightarrow>
          (let install0 = normalize_install_data E rec;
               verification0 = normalize_verification E rec;
               install1 = (case mcp_config of
                    Some config \<Rightarrow>
                      if category = ''mcp''
                      then [(''type'', JStr ''mcp''), (''command'', JStr []),
                            (''config_snippet'', JObj config)]
                      else install0
                  | None \<Rightarrow> install0);
               verification = (case mcp_config of
                    Some config \<Rightarrow>
                      if category = ''mcp''
                      then [(''type'', JStr ''mcp_connect''),
                            (''test_command'', JStr (''Use MCP: '' @ name))]
                      else verification0
                  | None \<Rightarrow> verification0);
               install = (if category = ''skill''
                             \<and> \<not> truthy (get_or install1 ''command'' JNull)
                             \<and> get_or install1 ''type'' JNull = JStr ''manual''
                          then AList.update ''instructions''
                                 (JStr ''Share this skill package separately or install manually'')
                                 install1
                          else install1);
               tags = (case get_or rec ''tags'' (JList []) of JList ts \<Rightarrow> ts | _ \<Rightarrow> []);
               pricing = (case map_of rec ''pricing'' of Some (JObj p) \<Rightarrow> p | _ \<Rightarrow> [])
           in [(''id'', JStr (item_id category name skill_hash)),
               (''name'', JStr name),
               (''category'', JStr category),
               (''sdlc_phase'', JStr (py_str E (get_or rec ''sdlc_phase'' (JStr ''implementation'')))),
               (''install'', redact_value (JObj install) []),
               (''verification'', JObj verification),
               (''tags'', JList (map (\<lambda>tag. JStr (py_str E tag)) tags)),
               (''source'', JStr (py_str E (get_or rec ''source'' (JStr ''manual'')))),
               (''source_url'', JStr (py_str E (get_or rec ''source_url'' (JStr [])))),
               (''pricing'', JObj pricing),
               (''os_support'', JList (map JStr (infer_os_support E rec category source_os))),
               (''manual_only'',
                  JBool (category = ''application''
                         \<or> get_or install ''type'' JNull = JStr ''manual'')),
               (''priority'', JStr ''optional'')]))"

text \<open>
  The inputs of \<^verbatim>\<open>merge_detected_context\<close> that come from probing the machine: the lists
  \<^verbatim>\<open>mcps\<close>, \<^verbatim>\<open>cli_tools\<close>, \<^verbatim>\<open>applications\<close> and \<^verbatim>\<open>plugins\<close> of the detection payload and its
  \<^verbatim>\<open>os\<close>, the catalog of recommendations keyed by lower-cased name
  (\<^verbatim>\<open>load_recommendations\<close>), the MCP configuration blocks keyed by lower-cased server name
  (\<^verbatim>\<open>detect_mcp_configs\<close>), the skills (\<^verbatim>\<open>detect_skills\<close>), the workflow patterns
  (\<^verbatim>\<open>detect_workflow_patterns\<close>) and the model preferences, as name and value
  (\<^verbatim>\<open>detect_model_preferences\<close>).
\<close>

record detection =
  det_os :: string
  det_mcps :: "json list"
  det_cli_tools :: "json list"
  det_applications :: "json list"
  det_plugins :: "json list"
  det_recommendations :: "(string \<times> dict) list"
  det_mcp_configs :: "(string \<times> dict) list"
  det_skills :: "dict list"
  det_workflow_patterns :: "string list"
  det_model_preferences :: "(string \<times> string) list"

record catalog =
  cat_mcps :: "dict list"
  cat_cli_tools :: "dict list"
  cat_skills :: "dict list"
  cat_applications :: "dict list"
  cat_plugins :: "dict list"
  cat_workflow_patterns :: "dict list"
  cat_model_preferences :: "dict list"

text \<open>The local function \<^verbatim>\<open>rec_for(name)\<close>.\<close>

definition rec_for :: "detection \<Rightarrow> string \<Rightarrow> dict option" where
  "rec_for d name = map_of (det_recommendations d) (lower name)"

text \<open>The body of the loop over the skills.\<close>

definition skill_item :: "env \<Rightarrow> detection \<Rightarrow> string \<Rightarrow> dict \<Rightarrow> dict" where
  "skill_item E d source_os skill =
     (let skill_name = py_str E (get_or skill ''name'' (JStr []));
          skill_hash = py_str E (get_or skill ''hash'' (JStr []));
          rec = rec_for d skill_name;
          item0 = build_item_from_recommendation E skill_name ''skill'' source_os rec None
                    skill_hash;
          item1 = AList.update ''skill_hash'' (JStr skill_hash) item0;
          item2 = AList.update ''skill_scopes'' (get_or skill ''scopes'' (JList [])) item1
      in if rec = None then
           AList.update ''install''
             (JObj [(''type'', JStr ''manual''), (''command'', JStr []),
                (''instructions'',
                 JStr ''Custom skill detected. Share/install the skill directory manually.'')])
             (AList.update ''manual_only'' (JBool True) item2)
         else item2)"

text \<open>The body of the loop over the workflow patterns.\<close>

definition workflow_item :: "env \<Rightarrow> detection \<Rightarrow> string \<Rightarrow> string \<Rightarrow> dict" where
  "workflow_item E d source_os pattern_name =
     (case rec_for d pattern_name of
        None \<Rightarrow>
          manual_item pattern_name ''workflow-pattern'' source_os ''Document and apply manually''
      | Some rec \<Rightarrow>
          AList.update ''manual_only'' (JBool True)
            (build_item_from_recommendation E pattern_name ''workflow-pattern'' source_os
               (Some rec) None []))"

text \<open>The body of the loop over the model preferences.\<close>

definition model_item :: "string \<Rightarrow> string \<times> string \<Rightarrow> dict" where
  "model_item source_os model_pref =
     AList.update ''value'' (JStr (snd model_pref))
       (manual_item (fst model_pref) ''model-preference'' source_os
          ''Set model preference manually'')"

text \<open>The catalog that \<^verbatim>\<open>merge_detected_context\<close> builds.\<close>

definition build_catalog :: "env \<Rightarrow> detection \<Rightarrow> string \<Rightarrow> catalog" where
  "build_catalog E d source_os =
     \<lparr>cat_mcps =
        map (\<lambda>name. build_item_from_recommendation E name ''mcp'' source_os (rec_for d name)
               (map_of (det_mcp_configs d) (lower name)) [])
          (sort (map (py_str E) (det_mcps d))),
      cat_cli_tools =
        map (\<lambda>name. build_item_from_recommendation E name ''cli-tool'' source_os
               (rec_for d name) None [])
          (sort (map (py_str E) (det_cli_tools d))),
      cat_skills = map (skill_item E d source_os) (det_skills d),
      cat_applications =
        map (\<lambda>name. build_item_from_recommendation E name ''application'' source_os
               (rec_for d name) None [])
          (sort (map (py_str E) (det_applications d))),
      cat_plugins =
        map (\<lambda>name. build_item_from_recommendation E name ''plugin'' source_os
               (rec_for d name) None [])
          (sort (map (py_str E) (det_plugins d))),
      cat_workflow_patterns = map (workflow_item E d source_os) (det_workflow_patterns d),
      cat_model_preferences = map (model_item source_os) (det_model_preferences d)\<rparr>"

text \<open>The result of \<^verbatim>\<open>merge_detected_context\<close>.\<close>

record merged =
  m_os :: string
  m_catalog :: catalog
  m_application_selection :: selection
  m_installed_index :: "(string \<times> string list) list"

definition item_name_lower :: "env \<Rightarrow> dict \<Rightarrow> string" where
  "item_name_lower E item = lower (py_str E (get_or item ''name'' (JStr [])))"


section \<open>Building a profile snapshot\<close>

text \<open>
  The loops of \<^verbatim>\<open>build_profile_snapshot\<close> over the caller's application choices: a choice
  that is a key of \<open>known\<close> is put into \<^verbatim>\<open>include_apps\<close>, any other is answered with a
  warning and skipped.
\<close>

fun include_choices ::
  "string \<Rightarrow> (string \<times> string) list \<Rightarrow> (string \<times> string) list \<times> string list \<Rightarrow> string list
   \<Rightarrow> (string \<times> string) list \<times> string list" where
  "include_choices msg known acc [] = acc"
| "include_choices msg known acc (app # apps) =
     (case map_of known (lower app) of
        None \<Rightarrow> include_choices msg known (fst acc, snd acc @ [msg @ app]) apps
      | Some name \<Rightarrow>
          include_choices msg known (AList.update (lower app) name (fst acc), snd acc) apps)"

text \<open>\<^verbatim>\<open>include_apps\<close> and the warnings, after the three loops.\<close>

definition included_apps ::
  "selection \<Rightarrow> string list \<Rightarrow> bool \<Rightarrow> string list \<Rightarrow> (string \<times> string) list \<times> string list" where
  "included_apps app_selection selected_new_apps include_saved_apps include_saved_missing_apps =
     (let normalized_new = lookup_by_lower (new_candidates app_selection);
          normalized_saved_missing = lookup_by_lower (saved_missing app_selection);
          include0 = (if include_saved_apps
                      then foldl (\<lambda>d app. AList.update (lower app) app d) []
                             (saved_installed app_selection)
                      else [])
      in include_choices ''Ignored unknown saved-missing app selection: ''
           normalized_saved_missing
           (include_choices ''Ignored unknown new app selection: '' normalized_new
              (include0, []) selected_new_apps)
           include_saved_missing_apps)"

text \<open>The copy of one catalog item that is put into the snapshot.\<close>

definition snapshot_item :: "env \<Rightarrow> string list \<Rightarrow> dict \<Rightarrow> dict" where
  "snapshot_item E required_tokens item =
     (let token_name = lower (py_str E (get_or item ''name'' (JStr [])));
          token_id = lower (py_str E (get_or item ''id'' (JStr [])));
          copy_item = AList.update ''priority''
            (JStr (if token_name \<in> set required_tokens \<or> token_id \<in> set required_tokens
                   then ''required'' else ''optional'')) item
      in AList.update ''install'' (redact_value (get_or copy_item ''install'' (JObj [])) [])
           copy_item)"

text \<open>
  The loop over \<^verbatim>\<open>categories_in_order\<close>: every item of every category but
  \<^verbatim>\<open>application\<close>, and the applications whose lower-cased name is in \<^verbatim>\<open>include_apps\<close>.
\<close>

definition selected_items :: "env \<Rightarrow> catalog \<Rightarrow> string list \<Rightarrow> string list \<Rightarrow> dict list" where
  "selected_items E c include_keys required_tokens =
     map (snapshot_item E required_tokens)
       (cat_mcps c @ cat_cli_tools c @ cat_skills c
        @ filter (\<lambda>item. item_name_lower E item \<in> set include_keys) (cat_applications c)
        @ cat_plugins c @ cat_workflow_patterns c @ cat_model_preferences c)"

record counts =
  cnt_total :: nat
  cnt_required :: nat
  cnt_optional :: nat
  cnt_by_category :: "(string \<times> nat) list"

text \<open>The loop that fills \<^verbatim>\<open>by_category\<close>.\<close>

definition count_by_category :: "env \<Rightarrow> dict list \<Rightarrow> (string \<times> nat) list" where
  "count_by_category E items =
     foldl (\<lambda>by_category item.
        (let cat = py_str E (get_or item ''category'' (JStr ''unknown'')) in
         AList.update cat ((case map_of by_category cat of Some n \<Rightarrow> n | None \<Rightarrow> 0) + 1)
           by_category)) [] items"

definition derive_counts :: "env \<Rightarrow> dict list \<Rightarrow> counts" where
  "derive_counts E items =
     \<lparr>cnt_total = length items,
      cnt_required =
        length (filter (\<lambda>item. get_or item ''priority'' JNull = JStr ''required'') items),
      cnt_optional =
        length (filter (\<lambda>item. get_or item ''priority'' JNull \<noteq> JStr ''required'') items),
      cnt_by_category = count_by_category E items\<rparr>"

text \<open>
  The snapshot; its fields with constant values (\<^verbatim>\<open>schema_version\<close>, \<^verbatim>\<open>profile_kind\<close>,
  \<^verbatim>\<open>visibility\<close>, \<^verbatim>\<open>link_policy\<close>, \<^verbatim>\<open>policies\<close>) are left out.
\<close>

record snapshot =
  snap_profile_name :: string
  snap_created_at :: string
  snap_metadata_os :: string
  snap_items :: "dict list"
  snap_counts :: counts

record selection_debug =
  dbg_selected_new_apps :: "string list"
  dbg_included_apps :: "string list"

text \<open>
  \<^verbatim>\<open>build_profile_snapshot(merged, selected_new_apps, include_saved_apps,
  include_saved_missing_apps, required_items, profile_name)\<close>: the snapshot, the selection
  report and the warnings.
\<close>

definition build_profile_snapshot ::
  "env \<Rightarrow> merged \<Rightarrow> string list \<Rightarrow> bool \<Rightarrow> string list \<Rightarrow> string list \<Rightarrow> string
   \<Rightarrow> snapshot \<times> selection_debug \<times> string list" where
  "build_profile_snapshot E mg selected_new_apps include_saved_apps include_saved_missing_apps
       required_items profile_name =
     (let app_selection = m_application_selection mg;
          normalized_new = lookup_by_lower (new_candidates app_selection);
          inc = included_apps app_selection selected_new_apps include_saved_apps
                  include_saved_missing_apps;
          include_apps = fst inc;
          required_tokens = map lower required_items;
          items = selected_items E (m_catalog mg) (map fst include_apps) required_tokens
      in (\<lparr>snap_profile_name =
             (if profile_name \<noteq> [] then profile_name else ''N-bench SDLC Profile''),
           snap_created_at = now_iso E,
           snap_metadata_os = normalize_os E (Some (m_os mg)),
           snap_items = items,
           snap_counts = derive_counts E items\<rparr>,
          \<lparr>dbg_selected_new_apps =
             sort (filter (\<lambda>v. lower v \<in> set (map fst normalized_new)) (map snd include_apps)),
           dbg_included_apps = sort (map snd include_apps)\<rparr>,
          snd inc))"








section \<open>Installer dispatcher\<close>



















section \<open>Concrete inputs\<close>

text \<open>A Linux host whose parser rejects every string and whose commands all succeed without output.\<close>

definition example_env :: env where
  "example_env = \<lparr>platform_system = ''Linux'', now_iso = ''2024-01-01T00:00:00Z'',
     json_loads = (\<lambda>s. None), py_repr = (\<lambda>v. []), json_dumps = (\<lambda>v. []),
     run_cmd = (\<lambda>args. Inr (0, [], []))\<rparr>"

text \<open>
  A foreign profile of four items and a stray string, and a local machine on which
  \<^verbatim>\<open>fzf\<close> is installed (scenarios A and B of the design document).
\<close>

definition example_profile :: dict where
  "example_profile = [(''items'', JList [
      JObj [(''name'', JStr ''Xcode''), (''category'', JStr ''application''),
            (''os_support'', JList [JStr ''macos''])],
      JObj [(''name'', JStr ''fzf''), (''category'', JStr ''cli-tool''),
            (''install'', JObj [(''type'', JStr ''brew''), (''command'', JStr ''brew install fzf'')])],
      JStr ''stray'',
      JObj [(''name'', JStr ''jq''), (''category'', JStr ''cli-tool''), (''priority'', JStr ''required''),
            (''install'', JObj [(''type'', JStr ''brew''), (''command'', JStr ''brew install jq'')])],
      JObj [(''name'', JStr ''notes''), (''category'', JStr ''workflow-pattern'')]])]"

definition example_local :: dict where
  "example_local = [(''installed_index'', JObj [(''cli-tool'', JList [JStr ''fzf''])])]"

text \<open>A state that remembers two applications, and three detected applications.\<close>

definition example_state :: state where
  "example_state = \<lparr>schema_version = JStr ''1'',
     saved_applications = [
       (''Slack'', JObj [(''first_saved_at'', JStr ''2023-05-01T00:00:00Z''),
                        (''last_selected_at'', JStr ''2023-05-01T00:00:00Z''),
                        (''last_seen_state'', JStr ''installed''),
                        (''priority'', JStr ''optional'')]),
       (''Zed'', JObj [(''first_saved_at'', JStr ''2023-06-01T00:00:00Z''),
                      (''last_selected_at'', JStr ''''),
                      (''last_seen_state'', JStr ''installed''),
                      (''priority'', JStr ''required'')])],
     published_profiles = [], last_exported_at = []\<rparr>"

definition example_detected_apps :: "string list" where
  "example_detected_apps = [''raycast'', ''slack'', ''Docker'']"

text \<open>
  State documents that \<^verbatim>\<open>load_state\<close> returns as they are: one whose entry for \<^verbatim>\<open>slack\<close>
  is a string, and one whose entry for \<^verbatim>\<open>slack\<close> has a list as its priority.
\<close>

definition example_state_string_entry :: state where
  "example_state_string_entry = \<lparr>schema_version = JStr ''1'',
     saved_applications = [(''slack'', JStr ''installed'')],
     published_profiles = [], last_exported_at = []\<rparr>"

definition example_state_list_priority :: state where
  "example_state_list_priority = \<lparr>schema_version = JStr ''1'',
     saved_applications = [(''slack'', JObj [(''last_seen_state'', JStr ''installed''),
        (''priority'', JList [])])],
     published_profiles = [], last_exported_at = []\<rparr>"

text \<open>A detection in which the probe reports the MCP server \<^verbatim>\<open>foo\<close> twice.\<close>

definition example_detection :: detection where
  "example_detection = \<lparr>det_os = ''linux'',
     det_mcps = [JStr ''foo'', JStr ''foo''],
     det_cli_tools = [JStr ''jq''],
     det_applications = [JStr ''raycast'', JStr ''slack'', JStr ''Docker''],
     det_plugins = [],
     det_recommendations = [
       (''jq'', [(''name'', JStr ''jq''),
          (''install'', JObj [(''type'', JStr ''brew''), (''command'', JStr ''brew install jq'')]),
          (''verification'', JObj [(''type'', JStr ''command_exists''),
             (''test_command'', JStr ''jq --version'')]),
          (''prerequisites'', JList [JStr ''macOS or Linux'']),
          (''tags'', JList [JStr ''json''])]),
       (''github'', [(''name'', JStr ''github''),
          (''install'', JObj [(''type'', JStr ''mcp'')])])],
     det_mcp_configs = [
       (''foo'', [(''command'', JStr ''npx''), (''args'', JList [JStr ''foo-server'']),
          (''env'', JObj [(''FOO_TOKEN'', JStr ''abc'')])]),
       (''github'', [(''command'', JStr ''npx''),
          (''env'', JObj [(''api_key'', JStr ''sk-abcdef0123456789'')])])],
     det_skills = [[(''name'', JStr ''notes''), (''hash'', JStr ''0123456789abcdef''),
        (''scopes'', JList [JStr ''global''])]],
     det_workflow_patterns = [''test-first-debugging''],
     det_model_preferences = [(''default-model:opus'', ''opus'')]\<rparr>"








section \<open>Properties of the string functions\<close>

lemma lower_char_idem: "lower_char (lower_char c) = lower_char c"
  unfolding lower_char_def upper_letters_def lower_letters_def
  by simp

lemma lower_idem: "lower (lower s) = lower s"
  by (simp add: lower_def lower_char_idem)

section \<open>Properties of import planning and of operating-system names\<close>

lemma map_of_installed_by_category:
  "map_of (installed_by_category E idx) c =
     (if c \<in> set [''mcp'', ''cli-tool'', ''application'', ''plugin'', ''skill'',
                   ''workflow-pattern'', ''model-preference'']
      then Some (installed_names E idx c) else None)"
  by (simp add: installed_by_category_def)

lemma plan_step_dict:
  "plan_step E os (installed_by_category E idx) acc (JObj item)
     = add_to_bucket os (spec_bucket E os idx item) item acc"
  unfolding plan_step_def spec_bucket_def add_to_bucket_def annotate_for_def
  by (simp add: map_of_installed_by_category del: set_simps)

lemma plan_fold:
  "foldl (plan_step E os (installed_by_category E idx)) acc items =
     \<lparr>acc_prompt_required = acc_prompt_required acc @ sel E os idx Prompt_required items,
      acc_prompt_optional = acc_prompt_optional acc @ sel E os idx Prompt_optional items,
      acc_manual_required = acc_manual_required acc @ sel E os idx Manual_required items,
      acc_manual_optional = acc_manual_optional acc @ sel E os idx Manual_optional items,
      acc_already_installed = acc_already_installed acc @ sel E os idx Already_installed items,
      acc_unsupported = acc_unsupported acc @ sel E os idx Unsupported items\<rparr>"
proof (induction items arbitrary: acc)
  case Nil
  show ?case by (simp add: sel_def)
next
  case (Cons raw items)
  show ?case
  proof (cases raw)
    case (JObj item)
    show ?thesis
      unfolding JObj foldl_Cons Cons.IH plan_step_dict
      by (cases "spec_bucket E os idx item") (simp_all add: add_to_bucket_def sel_def)
  next
    case JNull
    have "plan_step E os (installed_by_category E idx) acc raw = acc"
      by (simp add: JNull plan_step_def)
    then show ?thesis unfolding foldl_Cons Cons.IH by (simp add: sel_def JNull)
  next
    case (JBool b)
    have "plan_step E os (installed_by_category E idx) acc raw = acc"
      by (simp add: JBool plan_step_def)
    then show ?thesis unfolding foldl_Cons Cons.IH by (simp add: sel_def JBool)
  next
    case (JNum n)
    have "plan_step E os (installed_by_category E idx) acc raw = acc"
      by (simp add: JNum plan_step_def)
    then show ?thesis unfolding foldl_Cons Cons.IH by (simp add: sel_def JNum)
  next
    case (JStr n)
    have "plan_step E os (installed_by_category E idx) acc raw = acc"
      by (simp add: JStr plan_step_def)
    then show ?thesis unfolding foldl_Cons Cons.IH by (simp add: sel_def JStr)
  next
    case (JList n)
    have "plan_step E os (installed_by_category E idx) acc raw = acc"
      by (simp add: JList plan_step_def)
    then show ?thesis unfolding foldl_Cons Cons.IH by (simp add: sel_def JList)
  qed
qed

lemma recognized_normalize_os:
  "recognized_os raw \<Longrightarrow> normalize_os E (Some raw) = normalize_os E' (Some raw)"
  unfolding recognized_os_def normalize_os_def Let_def by auto

lemma os_support_norm_indep:
  assumes "\<forall>v \<in> set (item_os_support item). recognized_os (py_str E v)"
  shows "os_support_norm (E\<lparr>platform_system := s\<rparr>) item = os_support_norm E item"
proof -
  have p: "py_str (E\<lparr>platform_system := s\<rparr>) v = py_str E v" for v
    by (simp add: py_str_def split: json.split)
  show ?thesis
    unfolding os_support_norm_def p
    by (rule map_cong [OF refl]) (use assms in \<open>auto intro: recognized_normalize_os\<close>)
qed

lemma py_str_indep: "py_str (E\<lparr>platform_system := s\<rparr>) = py_str E"
  by (rule ext) (simp add: py_str_def split: json.split)

lemma item_fields_indep:
  "item_category (E\<lparr>platform_system := s\<rparr>) item = item_category E item"
  "item_name (E\<lparr>platform_system := s\<rparr>) item = item_name E item"
  "item_is_required (E\<lparr>platform_system := s\<rparr>) item = item_is_required E item"
  "item_manual_only (E\<lparr>platform_system := s\<rparr>) item = item_manual_only E item"
  "installed_names (E\<lparr>platform_system := s\<rparr>) idx c = installed_names E idx c"
  unfolding item_category_def item_name_def item_is_required_def item_manual_only_def
    installed_names_def py_str_indep
  by (rule refl)+

lemma spec_bucket_indep:
  assumes "\<forall>v \<in> set (item_os_support item). recognized_os (py_str E v)"
  shows "spec_bucket (E\<lparr>platform_system := s\<rparr>) os idx item = spec_bucket E os idx item"
  unfolding spec_bucket_def os_support_norm_indep [OF assms] item_fields_indep
  by (rule refl)

lemma plan_import_actions_sel:
  "plan_import_actions E profile local os =
     \<lparr>plan_current_os = os,
      summary = \<lparr>total_items = length (profile_items profile),
        n_prompt_required = length (sel E os (local_index local) Prompt_required (profile_items profile)),
        n_prompt_optional = length (sel E os (local_index local) Prompt_optional (profile_items profile)),
        n_manual_required = length (sel E os (local_index local) Manual_required (profile_items profile)),
        n_manual_optional = length (sel E os (local_index local) Manual_optional (profile_items profile)),
        n_already_installed = length (sel E os (local_index local) Already_installed (profile_items profile)),
        n_unsupported = length (sel E os (local_index local) Unsupported (profile_items profile))\<rparr>,
      prompt_required = sel E os (local_index local) Prompt_required (profile_items profile),
      prompt_optional = sel E os (local_index local) Prompt_optional (profile_items profile),
      manual_required = sel E os (local_index local) Manual_required (profile_items profile),
      manual_optional = sel E os (local_index local) Manual_optional (profile_items profile),
      already_installed = sel E os (local_index local) Already_installed (profile_items profile),
      unsupported = sel E os (local_index local) Unsupported (profile_items profile),
      ordered_candidates = sel E os (local_index local) Prompt_required (profile_items profile)
        @ sel E os (local_index local) Prompt_optional (profile_items profile)
        @ sel E os (local_index local) Manual_required (profile_items profile)
        @ sel E os (local_index local) Manual_optional (profile_items profile)\<rparr>"
  unfolding plan_import_actions_def Let_def
  by (simp add: plan_fold empty_acc_def profile_items_def local_index_def)

lemma bucket_of_plan_sel:
  "bucket_of_plan b (plan_import_actions E profile local os)
     = sel E os (local_index local) b (profile_items profile)"
  unfolding plan_import_actions_sel by (cases b) (simp_all add: bucket_of_plan_def)

lemma sel_indep:
  assumes "\<forall>item \<in> set (dict_items profile). \<forall>v \<in> set (item_os_support item). recognized_os (py_str E v)"
  shows "sel (E\<lparr>platform_system := s\<rparr>) os idx b (profile_items profile) = sel E os idx b (profile_items profile)"
proof -
  have "filter (\<lambda>item. spec_bucket (E\<lparr>platform_system := s\<rparr>) os idx item = b) (dict_items profile)
      = filter (\<lambda>item. spec_bucket E os idx item = b) (dict_items profile)"
    by (rule filter_cong [OF refl]) (use assms in \<open>simp add: spec_bucket_indep\<close>)
  then show ?thesis by (simp add: sel_def dict_items_def)
qed

lemma map_of_annotate:
  "map_of (AList.update ''reason'' r (AList.update ''action'' a item)) k
     = (if k = ''reason'' then Some r else if k = ''action'' then Some a else map_of item k)"
  by (simp add: update_conv')

lemma rank_annotate:
  "candidate_rank E (annotate a r item)
     = (if a = ''prompt_install'' then 0 else 2) + (if item_is_required E item then 0 else 1)"
  by (simp add: candidate_rank_def annotate_def get_or_def item_is_required_def map_of_annotate)

lemma spec_bucket_required:
  "spec_bucket E os idx item \<in> {Prompt_required, Manual_required} \<Longrightarrow> item_is_required E item"
  "spec_bucket E os idx item \<in> {Prompt_optional, Manual_optional} \<Longrightarrow> \<not> item_is_required E item"
  unfolding spec_bucket_def by (simp_all split: if_splits)

lemma rank_sel:
  assumes "c \<in> set (sel E os idx b items)"
    and "b \<in> {Prompt_required, Prompt_optional, Manual_required, Manual_optional}"
  shows "candidate_rank E c = bucket_rank b"
proof -
  from assms(1) obtain item where c: "c = annotate_for os b item"
    and b: "spec_bucket E os idx item = b"
    unfolding sel_def by auto
  from assms(2) consider "b = Prompt_required" | "b = Prompt_optional"
    | "b = Manual_required" | "b = Manual_optional" by blast
  then show ?thesis
  proof cases
    case 1
    with b have "item_is_required E item" using spec_bucket_required(1) [of E os idx item] by simp
    then show ?thesis by (simp add: c 1 annotate_for_def rank_annotate bucket_rank_def)
  next
    case 2
    with b have "\<not> item_is_required E item" using spec_bucket_required(2) [of E os idx item] by simp
    then show ?thesis by (simp add: c 2 annotate_for_def rank_annotate bucket_rank_def)
  next
    case 3
    with b have "item_is_required E item" using spec_bucket_required(1) [of E os idx item] by simp
    then show ?thesis by (simp add: c 3 annotate_for_def rank_annotate bucket_rank_def)
  next
    case 4
    with b have "\<not> item_is_required E item" using spec_bucket_required(2) [of E os idx item] by simp
    then show ?thesis by (simp add: c 4 annotate_for_def rank_annotate bucket_rank_def)
  qed
qed

lemma sorted_const: "(\<And>x. x \<in> set xs \<Longrightarrow> f x = (k::nat)) \<Longrightarrow> sorted (map f xs)"
  by (induction xs) auto

lemma sorted_ranks:
  "sorted (map (candidate_rank E) (ordered_candidates (plan_import_actions E profile local os)))"
proof -
  let ?s = "\<lambda>b. sel E os (local_index local) b (profile_items profile)"
  have r: "\<And>c b. c \<in> set (?s b) \<Longrightarrow> b \<in> {Prompt_required, Prompt_optional, Manual_required, Manual_optional}
     \<Longrightarrow> candidate_rank E c = bucket_rank b"
    by (rule rank_sel)
  have s: "sorted (map (candidate_rank E) (?s b))"
    if "b \<in> {Prompt_required, Prompt_optional, Manual_required, Manual_optional}" for b
    by (rule sorted_const [where k = "bucket_rank b"]) (use that r in blast)
  have o: "ordered_candidates (plan_import_actions E profile local os)
     = ?s Prompt_required @ ?s Prompt_optional @ ?s Manual_required @ ?s Manual_optional"
    by (simp add: plan_import_actions_sel)
  show ?thesis
    unfolding o map_append sorted_append
    using s r by (auto simp: bucket_rank_def)
qed


text \<open>
  Claim C2. Every dict among the items of a foreign snapshot lands in exactly one of the six
  lists of the plan: each list holds, in input order, the annotated copies of exactly the
  items whose disposition is that list's, where the disposition is computed by the checks
  in the order unsupported OS, already installed, manual setup, prompt. When every
  \<^verbatim>\<open>os_support\<close> entry of every item is a recognised operating-system name, the plan does
  not depend on the host the planner runs on: it is a function of the items, the local OS
  and the local installed-index.
\<close>

theorem plan_import_partition:
  "(\<forall>b. bucket_of_plan b (plan_import_actions E profile local current_os)
        = map (annotate_for current_os b)
            (filter (\<lambda>item. spec_bucket E current_os (local_index local) item = b)
               (dict_items profile)))
   \<and> (list_all (known_os_support E) (dict_items profile)
      \<longrightarrow> (\<forall>host. plan_import_actions (E\<lparr>platform_system := host\<rparr>) profile local current_os
                  = plan_import_actions E profile local current_os))"
proof (intro conjI allI impI)
  fix b
  show "bucket_of_plan b (plan_import_actions E profile local current_os)
        = map (annotate_for current_os b)
            (filter (\<lambda>item. spec_bucket E current_os (local_index local) item = b)
               (dict_items profile))"
    by (simp add: bucket_of_plan_sel sel_def dict_items_def)
next
  fix host
  assume "list_all (known_os_support E) (dict_items profile)"
  then have wf: "\<forall>item \<in> set (dict_items profile). \<forall>v \<in> set (item_os_support item).
          recognized_os (py_str E v)"
    by (simp add: list_all_iff known_os_support_def)
  show "plan_import_actions (E\<lparr>platform_system := host\<rparr>) profile local current_os
                  = plan_import_actions E profile local current_os"
    unfolding plan_import_actions_sel sel_indep [OF wf] by (rule refl)
qed

theorem plan_import_partition_witness:
  "list_all (known_os_support example_env) (dict_items example_profile)
   \<and> plan_import_actions (example_env\<lparr>platform_system := ''Darwin''\<rparr>)
        example_profile example_local ''linux''
      = plan_import_actions example_env example_profile example_local ''linux''
   \<and> bucket_of_plan Unsupported
        (plan_import_actions example_env example_profile example_local ''linux'')
      = [JObj [(''name'', JStr ''Xcode''), (''category'', JStr ''application''),
               (''os_support'', JList [JStr ''macos'']), (''action'', JStr ''unsupported_os''),
               (''reason'', JStr ''Not supported on linux'')]]
   \<and> bucket_of_plan Already_installed
        (plan_import_actions example_env example_profile example_local ''linux'')
      = [JObj [(''name'', JStr ''fzf''), (''category'', JStr ''cli-tool''),
               (''install'', JObj [(''type'', JStr ''brew''),
                  (''command'', JStr ''brew install fzf'')]),
               (''action'', JStr ''skip_already_installed''),
               (''reason'', JStr ''Already installed'')]]"
proof -
  note part = plan_import_partition [of example_env example_profile example_local "''linux''"]
  have h: "list_all (known_os_support example_env) (dict_items example_profile)"
    by code_simp
  have a: "map (annotate_for ''linux'' Unsupported)
            (filter (\<lambda>item. spec_bucket example_env ''linux'' (local_index example_local) item
                 = Unsupported) (dict_items example_profile))
      = [JObj [(''name'', JStr ''Xcode''), (''category'', JStr ''application''),
               (''os_support'', JList [JStr ''macos'']), (''action'', JStr ''unsupported_os''),
               (''reason'', JStr ''Not supported on linux'')]]"
    by code_simp
  have b: "map (annotate_for ''linux'' Already_installed)
            (filter (\<lambda>item. spec_bucket example_env ''linux'' (local_index example_local) item
                 = Already_installed) (dict_items example_profile))
      = [JObj [(''name'', JStr ''fzf''), (''category'', JStr ''cli-tool''),
               (''install'', JObj [(''type'', JStr ''brew''),
                  (''command'', JStr ''brew install fzf'')]),
               (''action'', JStr ''skip_already_installed''),
               (''reason'', JStr ''Already installed'')]]"
    by code_simp
  from part h have "plan_import_actions (example_env\<lparr>platform_system := ''Darwin''\<rparr>)
        example_profile example_local ''linux''
      = plan_import_actions example_env example_profile example_local ''linux''"
    by blast
  moreover from part have "bucket_of_plan Unsupported
        (plan_import_actions example_env example_profile example_local ''linux'')
      = map (annotate_for ''linux'' Unsupported)
            (filter (\<lambda>item. spec_bucket example_env ''linux'' (local_index example_local) item
                 = Unsupported) (dict_items example_profile))"
    by blast
  moreover from part have "bucket_of_plan Already_installed
        (plan_import_actions example_env example_profile example_local ''linux'')
      = map (annotate_for ''linux'' Already_installed)
            (filter (\<lambda>item. spec_bucket example_env ''linux'' (local_index example_local) item
                 = Already_installed) (dict_items example_profile))"
    by blast
  ultimately show ?thesis using h a b by simp
qed

text \<open>
  Claim C3. The list \<^verbatim>\<open>ordered_candidates\<close> of a plan is the concatenation of the lists
  \<^verbatim>\<open>prompt_required\<close>, \<^verbatim>\<open>prompt_optional\<close>, \<^verbatim>\<open>manual_required\<close> and \<^verbatim>\<open>manual_optional\<close> in this
  order, so that along the list the candidates' ranks (prompt before manual, and within
  each required before optional) never decrease.
\<close>

theorem ordered_candidates_concat:
  "ordered_candidates (plan_import_actions E profile local current_os)
     = prompt_required (plan_import_actions E profile local current_os)
       @ prompt_optional (plan_import_actions E profile local current_os)
       @ manual_required (plan_import_actions E profile local current_os)
       @ manual_optional (plan_import_actions E profile local current_os)
   \<and> sorted (map (candidate_rank E)
        (ordered_candidates (plan_import_actions E profile local current_os)))"
  by (simp add: sorted_ranks) (simp add: plan_import_actions_def Let_def)

text \<open>
  Claim C10. For every input, \<^verbatim>\<open>normalize_os\<close> returns one of \<^verbatim>\<open>macos\<close>, \<^verbatim>\<open>linux\<close> and
  \<^verbatim>\<open>windows\<close>: a recognised alias, after stripping and lower-casing, gives its canonical
  name, and every other input (the empty string and \<^verbatim>\<open>None\<close> among them) gives the
  operating system of the host, without an error. Hence every normalised \<^verbatim>\<open>os_support\<close>
  entry of an item is one of the three names.
\<close>

theorem normalize_os_total:
  "normalize_os E raw \<in> set ALL_OSES
   \<and> normalize_os E raw =
      (let value = lower (strip (case raw of None \<Rightarrow> [] | Some r \<Rightarrow> r)) in
       if value \<in> set [''darwin'', ''mac'', ''macos'', ''osx''] then ''macos''
       else if value = ''linux'' then ''linux''
       else if value \<in> set [''windows'', ''win32'', ''cygwin'', ''msys''] then ''windows''
       else normalize_os E None)
   \<and> normalize_os E None =
      (if lower (platform_system E) = ''darwin'' then ''macos''
       else if lower (platform_system E) = ''windows'' then ''windows''
       else ''linux'')
   \<and> set (os_support_norm E item) \<subseteq> set ALL_OSES"
proof -
  have total: "normalize_os E r \<in> set ALL_OSES" for r
    unfolding normalize_os_def Let_def ALL_OSES_def by simp
  have "set (os_support_norm E item) \<subseteq> set ALL_OSES"
    unfolding os_support_norm_def using total by auto
  moreover have "normalize_os E raw =
      (let value = lower (strip (case raw of None \<Rightarrow> [] | Some r \<Rightarrow> r)) in
       if value \<in> set [''darwin'', ''mac'', ''macos'', ''osx''] then ''macos''
       else if value = ''linux'' then ''linux''
       else if value \<in> set [''windows'', ''win32'', ''cygwin'', ''msys''] then ''windows''
       else normalize_os E None)"
    unfolding normalize_os_def Let_def by (simp add: strip_def lower_def)
  moreover have "normalize_os E None =
      (if lower (platform_system E) = ''darwin'' then ''macos''
       else if lower (platform_system E) = ''windows'' then ''windows''
       else ''linux'')"
    unfolding normalize_os_def Let_def by (simp add: strip_def lower_def)
  ultimately show ?thesis using total by blast
qed

theorem normalize_os_total_witness:
  "normalize_os example_env (Some '' Darwin '') = ''macos''
   \<and> normalize_os example_env (Some ''solaris'') = ''linux''
   \<and> normalize_os (example_env\<lparr>platform_system := ''Windows''\<rparr>) (Some []) = ''windows''"
proof -
  have a: "lower (strip '' Darwin '') = ''darwin''" "lower (strip ''solaris'') = ''solaris''"
    "lower (strip []) = []" "lower ''Windows'' = ''windows''" "lower ''Linux'' = ''linux''"
    by code_simp+
  show ?thesis
    using normalize_os_total [of example_env "Some '' Darwin ''"]
      normalize_os_total [of example_env "Some ''solaris''"]
      normalize_os_total [of "example_env\<lparr>platform_system := ''Windows''\<rparr>" "Some []"]
      normalize_os_total [of example_env None]
      normalize_os_total [of "example_env\<lparr>platform_system := ''Windows''\<rparr>" None]
    by (simp add: a Let_def example_env_def)
qed

section \<open>Properties of the application selection\<close>

lemma foldl_lookup_inv:
  "lookup_inv ns d \<Longrightarrow>
     lookup_inv (ns @ names) (foldl (\<lambda>d name. AList.update (lower name) name d) d names)"
proof (induction names arbitrary: d ns)
  case Nil then show ?case by simp
next
  case (Cons n names)
  have d: "distinct (map fst d)" and dm: "dom (map_of d) = lower ` set ns"
    and pr: "\<And>k v. map_of d k = Some v \<Longrightarrow> k = lower v \<and> v \<in> set ns"
    using Cons.prems unfolding lookup_inv_def by simp_all
  have m: "map_of (AList.update (lower n) n d) = (map_of d)(lower n \<mapsto> n)"
    by (rule update_conv')
  have 1: "distinct (map fst (AList.update (lower n) n d))"
    using d by (rule distinct_update)
  have 2: "dom (map_of (AList.update (lower n) n d)) = lower ` set (ns @ [n])"
    unfolding m using dm by simp
  have 3: "k = lower v \<and> v \<in> set (ns @ [n])"
    if "map_of (AList.update (lower n) n d) k = Some v" for k v
  proof (cases "k = lower n")
    case True
    with that have "v = n" unfolding m by simp
    with True show ?thesis by simp
  next
    case False
    with that have "map_of d k = Some v" unfolding m by simp
    from pr [OF this] show ?thesis by simp
  qed
  have 4: "\<forall>k v. map_of (AList.update (lower n) n d) k = Some v
       \<longrightarrow> k = lower v \<and> v \<in> set (ns @ [n])"
    using 3 by blast
  have "lookup_inv (ns @ [n]) (AList.update (lower n) n d)"
    unfolding lookup_inv_def by (rule conjI [OF 1 conjI [OF 2 4]])
  from Cons.IH [OF this] show ?case by simp
qed

lemma lookup_by_lower_inv: "lookup_inv names (lookup_by_lower names)"
proof -
  have "lookup_inv [] []" unfolding lookup_inv_def by simp
  from foldl_lookup_inv [OF this, of names] show ?thesis
    unfolding lookup_by_lower_def by simp
qed

lemma lookup_distinct: "distinct (map fst (lookup_by_lower names))"
  using lookup_by_lower_inv [of names] unfolding lookup_inv_def by (rule conjunct1)

lemma lookup_keys: "set (map fst (lookup_by_lower names)) = lower ` set names"
proof -
  have "dom (map_of (lookup_by_lower names)) = lower ` set names"
    using lookup_by_lower_inv [of names] unfolding lookup_inv_def by blast
  then show ?thesis by (simp add: dom_map_of_conv_image_fst)
qed

lemma lookup_pair:
  assumes "(k, v) \<in> set (lookup_by_lower names)"
  shows "k = lower v \<and> v \<in> set names"
proof -
  have "map_of (lookup_by_lower names) k = Some v"
    using lookup_distinct assms by (rule map_of_is_SomeI)
  with lookup_by_lower_inv [of names] show ?thesis unfolding lookup_inv_def by blast
qed

lemma map_fst_by_snd:
  "(\<And>k v. (k, v) \<in> set d \<Longrightarrow> k = f v) \<Longrightarrow> map fst d = map f (map snd d)"
  by (induction d) auto

lemma distinct_map_sort:
  "distinct (map f (sort xs)) = distinct (map f xs)"
  by (simp add: distinct_map)

lemma selection_core:
  fixes D :: "(string \<times> string) list" and P :: "string \<Rightarrow> bool"
  assumes pairs: "\<And>k v. (k, v) \<in> set D \<Longrightarrow> k = lower v \<and> v \<in> set detected"
    and dist: "distinct (map fst D)"
    and keys: "set (map fst D) = lower ` set detected"
  defines "A \<equiv> sort (map snd (filter (\<lambda>(key, name). P key) D))"
    and "B \<equiv> sort (map snd (filter (\<lambda>(key, name). \<not> P key) D))"
  shows "distinct (map lower (A @ B))"
    and "set (map lower (A @ B)) = set (map lower detected)"
    and "set (A @ B) \<subseteq> set detected"
    and "set (map lower A) = {k \<in> set (map fst D). P k}"
    and "set (map lower B) = {k \<in> set (map fst D). \<not> P k}"
    and "distinct (map lower detected) \<Longrightarrow> set (A @ B) = set detected"
proof -
  let ?F = "filter (\<lambda>(key, name). P key) D" and ?G = "filter (\<lambda>(key, name). \<not> P key) D"
  have fF: "map fst ?F = map lower (map snd ?F)"
    by (rule map_fst_by_snd) (use pairs in auto)
  have fG: "map fst ?G = map lower (map snd ?G)"
    by (rule map_fst_by_snd) (use pairs in auto)
  have lA: "set (map lower A) = set (map fst ?F)" 
    unfolding fF A_def by (simp add: image_image)
  have lB: "set (map lower B) = set (map fst ?G)"
    unfolding fG B_def by (simp add: image_image)
  show a: "set (map lower A) = {k \<in> set (map fst D). P k}"
    unfolding lA by force
  show b: "set (map lower B) = {k \<in> set (map fst D). \<not> P k}"
    unfolding lB by force
  have dA: "distinct (map lower A)"
    unfolding A_def distinct_map_sort fF [symmetric] using dist by (rule distinct_map_filter)
  have dB: "distinct (map lower B)"
    unfolding B_def distinct_map_sort fG [symmetric] using dist by (rule distinct_map_filter)
  show "distinct (map lower (A @ B))"
    using dA dB a b by auto
  show "set (map lower (A @ B)) = set (map lower detected)"
    using a b keys by auto
  have sAB: "set (A @ B) = snd ` set D"
    unfolding A_def B_def by force
  show "set (A @ B) \<subseteq> set detected"
    unfolding sAB using pairs by auto
  show "set (A @ B) = set detected" if d: "distinct (map lower detected)"
  proof
    show "set (A @ B) \<subseteq> set detected" unfolding sAB using pairs by auto
    show "set detected \<subseteq> set (A @ B)"
    proof
      fix v assume v: "v \<in> set detected"
      then have "lower v \<in> set (map fst D)" using keys by simp
      then obtain v' where in_D: "(lower v, v') \<in> set D" by auto
      with pairs have "lower v = lower v'" "v' \<in> set detected" by blast+
      moreover have "inj_on lower (set detected)" using d by (simp add: distinct_map)
      ultimately have "v' = v" using v inj_onD [of lower "set detected" v' v] by simp
      with in_D show "v \<in> set (A @ B)" unfolding sAB by force
    qed
  qed
qed

text \<open>
  Claim C4. For every list of detected applications and every saved state, the lists
  \<^verbatim>\<open>saved_installed\<close> and \<^verbatim>\<open>new_candidates\<close> are disjoint, and together they hold every
  detected application exactly once, an application being identified by its lower-cased
  name as the reconciler does: the lower-cased names of the two lists are pairwise distinct
  and are exactly the lower-cased detected names, and each listed name is a detected name.
  \<^verbatim>\<open>saved_missing\<close> shares no application with them. When no two detected names differ
  only in case, the two lists hold exactly the detected names.
\<close>

theorem selection_partition:
  "set (saved_installed (compute_application_selection detected st))
      \<inter> set (new_candidates (compute_application_selection detected st)) = {}
   \<and> distinct (map lower (saved_installed (compute_application_selection detected st)
          @ new_candidates (compute_application_selection detected st)))
   \<and> set (map lower (saved_installed (compute_application_selection detected st)
          @ new_candidates (compute_application_selection detected st)))
       = set (map lower detected)
   \<and> set (saved_installed (compute_application_selection detected st)
          @ new_candidates (compute_application_selection detected st)) \<subseteq> set detected
   \<and> set (map lower (saved_missing (compute_application_selection detected st)))
       \<inter> set (map lower (saved_installed (compute_application_selection detected st)
          @ new_candidates (compute_application_selection detected st))) = {}
   \<and> (distinct (map lower detected) \<longrightarrow>
        set (saved_installed (compute_application_selection detected st)
          @ new_candidates (compute_application_selection detected st)) = set detected)"
proof -
  define D where "D = lookup_by_lower detected"
  define S where "S = lookup_by_lower (sort (map fst (saved_applications st)))"
  define P where "P = (\<lambda>key. key \<in> set (map fst S))"
  define A where "A = sort (map snd (filter (\<lambda>(key, name). P key) D))"
  define B where "B = sort (map snd (filter (\<lambda>(key, name). \<not> P key) D))"
  define M where "M = sort (map snd (filter (\<lambda>(key, name). key \<notin> set (map fst D)) S))"
  have si: "saved_installed (compute_application_selection detected st) = A"
    and nc: "new_candidates (compute_application_selection detected st) = B"
    and sm: "saved_missing (compute_application_selection detected st) = M"
    by (simp_all add: compute_application_selection_def Let_def D_def S_def P_def A_def B_def M_def)
  have pairs: "\<And>k v. (k, v) \<in> set D \<Longrightarrow> k = lower v \<and> v \<in> set detected"
    unfolding D_def by (rule lookup_pair)
  have dist: "distinct (map fst D)" unfolding D_def by (rule lookup_distinct)
  have keys: "set (map fst D) = lower ` set detected" unfolding D_def by (rule lookup_keys)
  note core = selection_core [of D detected P, OF pairs dist keys, folded A_def B_def]
  have lAB: "set (map lower (A @ B)) = set (map fst D)"
    using core(2) keys by simp
  have fM: "map fst (filter (\<lambda>(key, name). key \<notin> set (map fst D)) S)
      = map lower (map snd (filter (\<lambda>(key, name). key \<notin> set (map fst D)) S))"
    by (rule map_fst_by_snd) (use lookup_pair in \<open>auto simp: S_def\<close>)
  have lM: "set (map lower M) = set (map fst (filter (\<lambda>(key, name). key \<notin> set (map fst D)) S))"
    unfolding fM M_def by (simp add: image_image)
  have 5: "set (map lower M) \<inter> set (map lower (A @ B)) = {}"
    unfolding lM lAB by force
  have 1: "set A \<inter> set B = {}"
    using core(1) by auto
  show ?thesis
    unfolding si nc sm using 1 5 core(1,2,3,6) by blast
qed

theorem selection_partition_witness:
  "distinct (map lower example_detected_apps)
   \<and> set (saved_installed (compute_application_selection example_detected_apps example_state)
          @ new_candidates (compute_application_selection example_detected_apps example_state))
      = set example_detected_apps
   \<and> saved_installed (compute_application_selection example_detected_apps example_state)
      = [''slack'']
   \<and> new_candidates (compute_application_selection example_detected_apps example_state)
      = [''Docker'', ''raycast'']"
proof -
  have d: "distinct (map lower example_detected_apps)" by code_simp
  have a: "saved_installed (compute_application_selection example_detected_apps example_state)
      = [''slack'']" by code_simp
  have b: "new_candidates (compute_application_selection example_detected_apps example_state)
      = [''Docker'', ''raycast'']" by code_simp
  from selection_partition [of example_detected_apps example_state] d
  have "set (saved_installed (compute_application_selection example_detected_apps example_state)
          @ new_candidates (compute_application_selection example_detected_apps example_state))
      = set example_detected_apps" by blast
  with d a b show ?thesis by blast
qed

section \<open>Properties of the saved-state update\<close>

text \<open>
  Claim C7. After the update every detected application should have an entry marked
  \<^verbatim>\<open>installed\<close>, and every other saved application should be kept and marked \<^verbatim>\<open>missing\<close>.
  The code does not do this for every state document that \<^verbatim>\<open>load_state\<close> hands it. With
  the string \<^verbatim>\<open>"installed"\<close> saved under \<^verbatim>\<open>slack\<close>, the update raises \<^verbatim>\<open>TypeError\<close> when
  \<^verbatim>\<open>slack\<close> is detected, and leaves no entry for it; when \<^verbatim>\<open>slack\<close> is not detected, the
  second loop replaces the same value by a fresh entry marked \<^verbatim>\<open>missing\<close>, as the claim
  says. With a list as the priority of the entry of \<^verbatim>\<open>slack\<close>, the update raises
  \<^verbatim>\<open>TypeError\<close> whether \<^verbatim>\<open>slack\<close> is detected or not.
\<close>

theorem update_saved_app_state_raises:
  "update_saved_app_state example_env example_state_string_entry [''slack''] [] [] = Inl TypeError
   \<and> update_saved_app_state example_env example_state_string_entry [''zed''] [] []
     = Inr (example_state_string_entry\<lparr>saved_applications :=
         [(''slack'', JObj [(''first_saved_at'', JStr ''2024-01-01T00:00:00Z''),
                           (''last_selected_at'', JStr []),
                           (''last_seen_state'', JStr ''missing''),
                           (''priority'', JStr ''optional'')]),
          (''zed'', JObj [(''first_saved_at'', JStr ''2024-01-01T00:00:00Z''),
                         (''last_selected_at'', JStr []),
                         (''last_seen_state'', JStr ''installed''),
                         (''priority'', JStr ''optional'')])]\<rparr>)
   \<and> update_saved_app_state example_env example_state_list_priority [''slack''] [] [] = Inl TypeError
   \<and> update_saved_app_state example_env example_state_list_priority [''zed''] [] [] = Inl TypeError"
  by code_simp

section \<open>Properties of the snapshot\<close>

lemma sum_update_count:
  "sum_list (map snd (AList.update k ((case map_of al k of Some n \<Rightarrow> n | None \<Rightarrow> 0) + 1) al))
     = sum_list (map snd al) + (1::nat)"
  by (induction al) auto

lemma sum_count_fold:
  assumes "\<And>acc item. sum_list (map snd (g acc item)) = sum_list (map snd acc) + (1::nat)"
  shows "sum_list (map snd (foldl g acc items)) = sum_list (map snd acc) + length items"
  by (induction items arbitrary: acc) (simp_all add: assms)

lemma sum_count_by_category: "sum_list (map snd (count_by_category E items)) = length items"
proof -
  have "sum_list (map snd (count_by_category E items)) = sum_list (map snd ([] :: (string \<times> nat) list)) + length items"
    unfolding count_by_category_def
    by (rule sum_count_fold) (simp add: Let_def sum_update_count del: One_nat_def)
  then show ?thesis by simp
qed

text \<open>
  Claim C8. In every snapshot that \<^verbatim>\<open>build_profile_snapshot\<close> builds, \<^verbatim>\<open>counts.total\<close> is the
  length of the list of items, \<^verbatim>\<open>counts.required\<close> and \<^verbatim>\<open>counts.optional\<close> add up to
  \<^verbatim>\<open>counts.total\<close>, and the counts of \<^verbatim>\<open>counts.by_category\<close> add up to \<^verbatim>\<open>counts.total\<close>.
\<close>

theorem snapshot_counts:
  "cnt_total (snap_counts (fst (build_profile_snapshot E mg selected_new_apps include_saved_apps
        include_saved_missing_apps required_items profile_name)))
     = length (snap_items (fst (build_profile_snapshot E mg selected_new_apps include_saved_apps
        include_saved_missing_apps required_items profile_name)))
   \<and> cnt_required (snap_counts (fst (build_profile_snapshot E mg selected_new_apps
        include_saved_apps include_saved_missing_apps required_items profile_name)))
     + cnt_optional (snap_counts (fst (build_profile_snapshot E mg selected_new_apps
        include_saved_apps include_saved_missing_apps required_items profile_name)))
     = cnt_total (snap_counts (fst (build_profile_snapshot E mg selected_new_apps
        include_saved_apps include_saved_missing_apps required_items profile_name)))
   \<and> sum_list (map snd (cnt_by_category (snap_counts (fst (build_profile_snapshot E mg
        selected_new_apps include_saved_apps include_saved_missing_apps required_items
        profile_name)))))
     = cnt_total (snap_counts (fst (build_profile_snapshot E mg selected_new_apps
        include_saved_apps include_saved_missing_apps required_items profile_name)))"
  unfolding build_profile_snapshot_def Let_def derive_counts_def
  by (simp add: sum_count_by_category sum_length_filter_compl)

section \<open>Properties of the catalog builder\<close>

lemma redact_text_mcp: "redact_text ''mcp'' = ''mcp''" "redact_text [] = []"
  by code_simp+

lemma not_sensitive_install_keys:
  "\<not> sensitive_key ''type''" "\<not> sensitive_key ''command''" "\<not> sensitive_key ''config_snippet''"
  "\<not> sensitive_key []"
  by code_simp+

lemma redact_mcp_install:
  "redact_value (JObj [(''type'', JStr ''mcp''), (''command'', JStr []),
        (''config_snippet'', JObj config)]) []
     = JObj [(''type'', JStr ''mcp''), (''command'', JStr []),
        (''config_snippet'', redact_value (JObj config) ''config_snippet'')]"
  by (simp add: redact_text_mcp not_sensitive_install_keys)

text \<open>
  Claim C6, as amended. For a detected MCP server whose lower-cased name has a
  configuration block and a catalog descriptor, the built item's \<^verbatim>\<open>install\<close> is of type
  \<^verbatim>\<open>mcp\<close>, with an empty command and the redacted configuration block as
  \<^verbatim>\<open>config_snippet\<close>, and its \<^verbatim>\<open>verification\<close> is of type \<^verbatim>\<open>mcp_connect\<close>. For a name
  without a catalog descriptor the built item is the manual item, whether or not a
  configuration block exists. The catalog's MCP items are built in this way from the
  sorted detected names.
\<close>

theorem mcp_item_with_config:
  "(rec_for d name = Some rec \<and> map_of (det_mcp_configs d) (lower name) = Some config \<longrightarrow>
      get_or (build_item_from_recommendation E name ''mcp'' source_os (rec_for d name)
                (map_of (det_mcp_configs d) (lower name)) []) ''install'' JNull
        = JObj [(''type'', JStr ''mcp''), (''command'', JStr []),
                (''config_snippet'', redact_value (JObj config) ''config_snippet'')]
      \<and> get_or (build_item_from_recommendation E name ''mcp'' source_os (rec_for d name)
                (map_of (det_mcp_configs d) (lower name)) []) ''verification'' JNull
        = JObj [(''type'', JStr ''mcp_connect''), (''test_command'', JStr (''Use MCP: '' @ name))])
   \<and> (rec_for d name = None \<longrightarrow>
        build_item_from_recommendation E name ''mcp'' source_os (rec_for d name)
          (map_of (det_mcp_configs d) (lower name)) []
        = manual_item name ''mcp'' source_os [])
   \<and> cat_mcps (build_catalog E d source_os)
       = map (\<lambda>name. build_item_from_recommendation E name ''mcp'' source_os (rec_for d name)
                (map_of (det_mcp_configs d) (lower name)) [])
           (sort (map (py_str E) (det_mcps d)))"
proof (intro conjI impI)
  assume a: "rec_for d name = Some rec \<and> map_of (det_mcp_configs d) (lower name) = Some config"
  show "get_or (build_item_from_recommendation E name ''mcp'' source_os (rec_for d name)
                (map_of (det_mcp_configs d) (lower name)) []) ''install'' JNull
        = JObj [(''type'', JStr ''mcp''), (''command'', JStr []),
                (''config_snippet'', redact_value (JObj config) ''config_snippet'')]"
    using a unfolding build_item_from_recommendation_def Let_def
    by (simp add: get_or_def redact_mcp_install del: redact_value.simps)
  show "get_or (build_item_from_recommendation E name ''mcp'' source_os (rec_for d name)
                (map_of (det_mcp_configs d) (lower name)) []) ''verification'' JNull
        = JObj [(''type'', JStr ''mcp_connect''), (''test_command'', JStr (''Use MCP: '' @ name))]"
    using a unfolding build_item_from_recommendation_def Let_def
    by (simp add: get_or_def del: redact_value.simps)
next
  assume "rec_for d name = None"
  then show "build_item_from_recommendation E name ''mcp'' source_os (rec_for d name)
          (map_of (det_mcp_configs d) (lower name)) []
        = manual_item name ''mcp'' source_os []"
    by (simp add: build_item_from_recommendation_def)
next
  show "cat_mcps (build_catalog E d source_os)
       = map (\<lambda>name. build_item_from_recommendation E name ''mcp'' source_os (rec_for d name)
                (map_of (det_mcp_configs d) (lower name)) [])
           (sort (map (py_str E) (det_mcps d)))"
    by (simp add: build_catalog_def)
qed

theorem mcp_item_with_config_witness:
  "rec_for example_detection ''github'' = Some [(''name'', JStr ''github''),
          (''install'', JObj [(''type'', JStr ''mcp'')])]
   \<and> map_of (det_mcp_configs example_detection) (lower ''github'')
      = Some [(''command'', JStr ''npx''),
          (''env'', JObj [(''api_key'', JStr ''sk-abcdef0123456789'')])]
   \<and> get_or (build_item_from_recommendation example_env ''github'' ''mcp'' ''linux''
                (rec_for example_detection ''github'')
                (map_of (det_mcp_configs example_detection) (lower ''github'')) []) ''install'' JNull
      = JObj [(''type'', JStr ''mcp''), (''command'', JStr []),
              (''config_snippet'', JObj [(''command'', JStr ''npx''),
                 (''env'', JObj [(''api_key'', JStr ''<redacted>'')])])]
   \<and> rec_for example_detection ''foo'' = None
   \<and> build_item_from_recommendation example_env ''foo'' ''mcp'' ''linux''
          (rec_for example_detection ''foo'')
          (map_of (det_mcp_configs example_detection) (lower ''foo'')) []
      = manual_item ''foo'' ''mcp'' ''linux'' []"
proof -
  have r: "rec_for example_detection ''github'' = Some [(''name'', JStr ''github''),
          (''install'', JObj [(''type'', JStr ''mcp'')])]"
    by code_simp
  have c: "map_of (det_mcp_configs example_detection) (lower ''github'')
      = Some [(''command'', JStr ''npx''),
          (''env'', JObj [(''api_key'', JStr ''sk-abcdef0123456789'')])]"
    by code_simp
  have v: "redact_value (JObj [(''command'', JStr ''npx''),
          (''env'', JObj [(''api_key'', JStr ''sk-abcdef0123456789'')])]) ''config_snippet''
      = JObj [(''command'', JStr ''npx''), (''env'', JObj [(''api_key'', JStr ''<redacted>'')])]"
    by code_simp
  have n: "rec_for example_detection ''foo'' = None" by code_simp
  note t1 = mcp_item_with_config [of example_detection "''github''" _ _ example_env "''linux''"]
  note t2 = mcp_item_with_config [of example_detection "''foo''" _ _ example_env "''linux''"]
  from t1 r c have "get_or (build_item_from_recommendation example_env ''github'' ''mcp'' ''linux''
                (rec_for example_detection ''github'')
                (map_of (det_mcp_configs example_detection) (lower ''github'')) []) ''install'' JNull
      = JObj [(''type'', JStr ''mcp''), (''command'', JStr []),
              (''config_snippet'', redact_value (JObj [(''command'', JStr ''npx''),
          (''env'', JObj [(''api_key'', JStr ''sk-abcdef0123456789'')])]) ''config_snippet'')]"
    by blast
  moreover from t2 n have "build_item_from_recommendation example_env ''foo'' ''mcp'' ''linux''
          (rec_for example_detection ''foo'')
          (map_of (det_mcp_configs example_detection) (lower ''foo'')) []
      = manual_item ''foo'' ''mcp'' ''linux'' []"
    by blast
  ultimately show ?thesis using r c n unfolding v by blast
qed

text \<open>
  The claim as first stated, for every detected MCP server with a configuration block
  whether or not a descriptor exists, fails: \<^verbatim>\<open>foo\<close> is detected and has a configuration
  block but no descriptor, and its items are manual ones.
\<close>

theorem mcp_item_without_descriptor_counterexample:
  "JStr ''foo'' \<in> set (det_mcps example_detection)
   \<and> map_of (det_mcp_configs example_detection) (lower ''foo'')
      = Some [(''command'', JStr ''npx''), (''args'', JList [JStr ''foo-server'']),
          (''env'', JObj [(''FOO_TOKEN'', JStr ''abc'')])]
   \<and> map (\<lambda>item. (get_or item ''name'' JNull, get_or (item_install item) ''type'' JNull,
               get_or (case get_or item ''verification'' JNull of JObj v \<Rightarrow> v | _ \<Rightarrow> [])
                 ''type'' JNull))
        (cat_mcps (build_catalog example_env example_detection ''linux''))
      = [(JStr ''foo'', JStr ''manual'', JStr ''manual''),
         (JStr ''foo'', JStr ''manual'', JStr ''manual'')]"
  by code_simp

section \<open>Properties of the snapshot items\<close>





































section \<open>Properties of the installer dispatcher\<close>






end
